theory Spec2Isabelle
  imports Complex_Main "HOL-Library.Multiset" "HOL-Library.Sublist"
    "HOL-Library.Char_ord" "HOL-Library.List_Lexorder"
begin

section \<open>Entity model (src/types/task.ts)\<close>

datatype TaskStatus = NotInitiated | InProgress | Completed
datatype WorkItemType = Project | Job
datatype SourceType = Call | TextMsg | Email | InPerson
datatype PriorityType = Low | Medium | High | Urgent
datatype MaterialStatus = Ordered | YetToBeShipped | InTransit | Received
datatype WorkConfirmationStatus = Awaiting | Confirmed

text \<open>
  A price field is declared \<^verbatim>\<open>quotedPrice?: number | null\<close>: it may be missing
  (\<^verbatim>\<open>undefined\<close>), \<^verbatim>\<open>null\<close> or a number. The three cases are kept apart because
  the code tests them in two ways: \<^verbatim>\<open>!== null\<close> (true for \<^verbatim>\<open>undefined\<close> and for every
  number) and truthiness (false for \<^verbatim>\<open>undefined\<close>, \<^verbatim>\<open>null\<close> and \<^verbatim>\<open>0\<close>).
  A number is the real it denotes; \<^verbatim>\<open>NaN\<close> and the infinities are left out.
\<close>

datatype price = Undefined | Null | Num real

text \<open>
  Dates are milliseconds since the epoch (\<^verbatim>\<open>getTime()\<close>). An optional date is either
  absent (\<^verbatim>\<open>undefined\<close> or \<^verbatim>\<open>null\<close>, which the code never tells apart: it only
  tests truthiness) or a \<^verbatim>\<open>Date\<close> object, which is always truthy.

  Three fields are renamed, their names being taken in Isabelle: \<^verbatim>\<open>id\<close> is
  \<open>taskId\<close>, \<^verbatim>\<open>notes\<close> is \<open>taskNotes\<close> and \<^verbatim>\<open>type\<close> is \<open>wtype\<close>. The fields
  \<^verbatim>\<open>assignedTo\<close> and \<^verbatim>\<open>timeSlots\<close>, which no function below reads, are left out.
\<close>

record Task =
  taskId :: string
  title :: string
  site :: string
  description :: string
  taskNotes :: "string option"
  status :: TaskStatus
  images :: "string list"
  userId :: string
  createdAt :: int
  updatedAt :: int
  dateInitiated :: "int option"
  dateCompleted :: "int option"
  uploaderEmail :: "string option"
  wtype :: WorkItemType
  source :: SourceType
  priority :: PriorityType
  requiresMaterial :: bool
  materialStatus :: "MaterialStatus option"
  materialDescription :: string
  quotedPrice :: price
  confirmedPrice :: price
  workConfirmationStatus :: WorkConfirmationStatus
  poNumber :: "string option"

section \<open>Double-precision arithmetic\<close>

text \<open>
  A JavaScript number is an IEEE 754 binary64 value, and an arithmetic operation on
  numbers is the exact operation followed by rounding to the nearest double, ties to
  even. A finite double is taken as the real it denotes. \<open>exponent x\<close> is the binary
  exponent of \<open>x\<close>, found by halving or doubling, and never below -1022 (below
  \<open>2 powi (- 1022)\<close> the doubles are evenly spaced); a double has 53 significant bits, so
  the spacing of the doubles around \<open>x\<close> is \<open>2 powi (exponent x - 52)\<close>.

  Left out: \<^verbatim>\<open>NaN\<close>, the sign of zero, and the infinities that replace a result beyond
  the largest double, about \<open>1.8 * 10 ^ 308\<close>. Time values are at most \<open>8.64 * 10 ^ 15\<close>
  in magnitude and an array has fewer than \<open>2 ^ 32\<close> elements, so the sums of durations
  below stay far from that.
\<close>

fun halvings :: "nat \<Rightarrow> real \<Rightarrow> int" where
  "halvings 0 x = 0"
| "halvings (Suc n) x = (if x < 2 then 0 else 1 + halvings n (x / 2))"

fun doublings :: "nat \<Rightarrow> real \<Rightarrow> int" where
  "doublings 0 x = 0"
| "doublings (Suc n) x = (if 1 \<le> x then 0 else doublings n (2 * x) - 1)"

definition exponent :: "real \<Rightarrow> int" where
  "exponent x = (if 1 \<le> \<bar>x\<bar> then halvings 1024 \<bar>x\<bar> else doublings 1022 \<bar>x\<bar>)"

definition roundHalfEven :: "real \<Rightarrow> int" where
  "roundHalfEven q =
     (let f = \<lfloor>q\<rfloor>; r = q - of_int f
      in if r < 1 / 2 then f else if 1 / 2 < r then f + 1 else if even f then f else f + 1)"

definition binary64 :: "real \<Rightarrow> real" where
  "binary64 x =
     (if x = 0 then 0
      else let ulp = 2 powi (exponent x - 52)
           in of_int (roundHalfEven (x / ulp)) * ulp)"

section \<open>\<^verbatim>\<open>Array.prototype.sort\<close> with a comparator\<close>

text \<open>
  ECMAScript requires \<^verbatim>\<open>sort\<close> to be stable, and for a consistent comparator the
  result is the one stably sorted arrangement; insertion from the right computes it.
  \<open>cmp a b \<le> 0\<close> means that \<open>a\<close> may stay in front of \<open>b\<close>.
\<close>

fun insort_cmp :: "('a \<Rightarrow> 'a \<Rightarrow> real) \<Rightarrow> 'a \<Rightarrow> 'a list \<Rightarrow> 'a list" where
  "insort_cmp cmp x [] = [x]"
| "insort_cmp cmp x (y # ys) =
     (if cmp x y \<le> 0 then x # y # ys else y # insort_cmp cmp x ys)"

fun array_sort :: "('a \<Rightarrow> 'a \<Rightarrow> real) \<Rightarrow> 'a list \<Rightarrow> 'a list" where
  "array_sort cmp [] = []"
| "array_sort cmp (x # xs) = insort_cmp cmp x (array_sort cmp xs)"

section \<open>The sort step of the task grid (src/unnamed/part_004, lines 33-38 and 209-244)\<close>

fun PRIORITY_ORDER :: "PriorityType \<Rightarrow> int" where
  "PRIORITY_ORDER Urgent = 4"
| "PRIORITY_ORDER High = 3"
| "PRIORITY_ORDER Medium = 2"
| "PRIORITY_ORDER Low = 1"

datatype SortOption =
  Newest | Oldest | TitleAsc | TitleDesc | PriorityHigh | PriorityLow | PriceHigh | PriceLow

text \<open>JavaScript truthiness of a price, and \<^verbatim>\<open>a || b\<close> on prices.\<close>

fun truthy :: "price \<Rightarrow> bool" where
  "truthy Undefined = False"
| "truthy Null = False"
| "truthy (Num x) = (x \<noteq> 0)"

definition js_or :: "price \<Rightarrow> price \<Rightarrow> price" where
  "js_or a b = (if truthy a then a else b)"

fun num_of :: "price \<Rightarrow> real" where
  "num_of (Num x) = x"
| "num_of Undefined = 0"
| "num_of Null = 0"

text \<open>\<^verbatim>\<open>t.confirmedPrice || t.quotedPrice || 0\<close>; the last operand is a number, so the
  result is one.\<close>

definition effectivePrice :: "Task \<Rightarrow> real" where
  "effectivePrice t = num_of (js_or (js_or (confirmedPrice t) (quotedPrice t)) (Num 0))"

text \<open>
  The comparator passed to \<^verbatim>\<open>result.sort\<close>. \<open>localeCompare\<close> is the platform's
  \<^verbatim>\<open>String.prototype.localeCompare\<close>, taken as a parameter. The type of
  \<^verbatim>\<open>priority\<close> has no falsy value, so \<^verbatim>\<open>a.priority || 'medium'\<close> is \<^verbatim>\<open>a.priority\<close>.
\<close>

fun compareTasks :: "(string \<Rightarrow> string \<Rightarrow> int) \<Rightarrow> SortOption \<Rightarrow> Task \<Rightarrow> Task \<Rightarrow> real" where
  "compareTasks localeCompare Newest a b = real_of_int (createdAt b - createdAt a)"
| "compareTasks localeCompare Oldest a b = real_of_int (createdAt a - createdAt b)"
| "compareTasks localeCompare TitleAsc a b = real_of_int (localeCompare (title a) (title b))"
| "compareTasks localeCompare TitleDesc a b = real_of_int (localeCompare (title b) (title a))"
| "compareTasks localeCompare PriorityHigh a b =
     (let aPriorityHigh = PRIORITY_ORDER (priority a);
          bPriorityHigh = PRIORITY_ORDER (priority b)
      in if aPriorityHigh \<noteq> bPriorityHigh then real_of_int (bPriorityHigh - aPriorityHigh)
         else real_of_int (createdAt b - createdAt a))"
| "compareTasks localeCompare PriorityLow a b =
     (let aPriorityLow = PRIORITY_ORDER (priority a);
          bPriorityLow = PRIORITY_ORDER (priority b)
      in if aPriorityLow \<noteq> bPriorityLow then real_of_int (aPriorityLow - bPriorityLow)
         else real_of_int (createdAt b - createdAt a))"
| "compareTasks localeCompare PriceHigh a b =
     (let bPrice = effectivePrice b; aPrice = effectivePrice a in bPrice - aPrice)"
| "compareTasks localeCompare PriceLow a b =
     (let bPrice2 = effectivePrice b; aPrice2 = effectivePrice a in aPrice2 - bPrice2)"

definition sortTasks :: "(string \<Rightarrow> string \<Rightarrow> int) \<Rightarrow> SortOption \<Rightarrow> Task list \<Rightarrow> Task list" where
  "sortTasks localeCompare sortBy result = array_sort (compareTasks localeCompare sortBy) result"

text \<open>
  What the ECMAScript specification asks of a comparator for the sorted order to be
  defined: it is total and transitive (a consistent comparator).
\<close>

definition consistent :: "('a \<Rightarrow> 'a \<Rightarrow> int) \<Rightarrow> bool" where
  "consistent c \<longleftrightarrow>
     (\<forall>a b. 0 < c a b \<longrightarrow> c b a \<le> 0) \<and> (\<forall>a b d. c a b \<le> 0 \<longrightarrow> c b d \<le> 0 \<longrightarrow> c a d \<le> 0)"

text \<open>A code-unit comparison of strings, one consistent comparator, to run examples with.\<close>

definition codeUnitCompare :: "string \<Rightarrow> string \<Rightarrow> int" where
  "codeUnitCompare a b = (if a = b then 0 else if a < b then - 1 else 1)"

definition blankTask :: Task where
  "blankTask = \<lparr> taskId = '''', title = '''', site = '''', description = '''', taskNotes = None,
     status = NotInitiated, images = [], userId = '''', createdAt = 0, updatedAt = 0,
     dateInitiated = None, dateCompleted = None, uploaderEmail = None, wtype = Job,
     source = Call, priority = Medium, requiresMaterial = False, materialStatus = None,
     materialDescription = '''', quotedPrice = Null, confirmedPrice = Null,
     workConfirmationStatus = Awaiting, poNumber = None \<rparr>"

section \<open>The filter step of the task grid (src/unnamed/part_004, lines 54-82 and 146-206)\<close>

record UserInfo =
  user_id :: string
  user_name :: string
  user_email :: string

record Filters =
  fStatus :: "TaskStatus list"
  fTypes :: "WorkItemType list"
  fUsers :: "string list"
  fMaterialStatus :: "MaterialStatus list"
  fPriorities :: "PriorityType list"
  fRequiresMaterial :: "bool option"
  fHasDocuments :: "bool option"
  fHasPrice :: "bool option"

definition initialFilters :: Filters where
  "initialFilters = \<lparr> fStatus = [], fTypes = [], fUsers = [], fMaterialStatus = [],
     fPriorities = [], fRequiresMaterial = None, fHasDocuments = None, fHasPrice = None \<rparr>"

text \<open>\<^verbatim>\<open>hay.includes(needle)\<close>: \<open>needle\<close> occurs in \<open>hay\<close> as a contiguous run.\<close>

fun str_includes :: "string \<Rightarrow> string \<Rightarrow> bool" where
  "str_includes [] needle = (needle = [])"
| "str_includes (c # cs) needle = (prefix needle (c # cs) \<or> str_includes cs needle)"

text \<open>
  The callback of the search filter. \<open>toLowerCase\<close> is the platform's
  \<^verbatim>\<open>String.prototype.toLowerCase\<close>, taken as a parameter; \<open>isAdmin\<close> is
  \<^verbatim>\<open>userData.role === 'admin'\<close>. An optional chain on a missing string is falsy, and so
  is the empty \<^verbatim>\<open>materialDescription\<close> in front of \<^verbatim>\<open>&&\<close>.
\<close>

definition matchesSearch ::
  "(string \<Rightarrow> string) \<Rightarrow> UserInfo list \<Rightarrow> bool \<Rightarrow> string \<Rightarrow> Task \<Rightarrow> bool" where
  "matchesSearch toLowerCase userList isAdmin searchQuery task =
     (let query = toLowerCase searchQuery;
          user = find (\<lambda>u. user_id u = userId task) userList
      in str_includes (toLowerCase (title task)) query \<or>
         str_includes (toLowerCase (description task)) query \<or>
         str_includes (toLowerCase (site task)) query \<or>
         (case taskNotes task of None \<Rightarrow> False
          | Some n \<Rightarrow> str_includes (toLowerCase n) query) \<or>
         (materialDescription task \<noteq> [] \<and>
          str_includes (toLowerCase (materialDescription task)) query) \<or>
         (isAdmin \<and>
          ((case uploaderEmail task of None \<Rightarrow> False
            | Some e \<Rightarrow> str_includes (toLowerCase e) query) \<or>
           (case user of None \<Rightarrow> False
            | Some u \<Rightarrow> str_includes (toLowerCase (user_name u)) query) \<or>
           (case user of None \<Rightarrow> False
            | Some u \<Rightarrow> str_includes (toLowerCase (user_email u)) query))))"

text \<open>The callbacks of the has-documents and has-price filters.\<close>

definition hasDocumentsTest :: "bool \<Rightarrow> Task \<Rightarrow> bool" where
  "hasDocumentsTest want task = (if want then length (images task) > 0 else length (images task) = 0)"

definition hasPriceTest :: "bool \<Rightarrow> Task \<Rightarrow> bool" where
  "hasPriceTest want task =
     (if want then quotedPrice task \<noteq> Null \<or> confirmedPrice task \<noteq> Null
      else quotedPrice task = Null \<and> confirmedPrice task = Null)"

definition applyFilters ::
  "(string \<Rightarrow> string) \<Rightarrow> UserInfo list \<Rightarrow> bool \<Rightarrow> string \<Rightarrow> Filters \<Rightarrow> Task list \<Rightarrow> Task list" where
  "applyFilters toLowerCase userList isAdmin searchQuery filters tasks =
     (let result = tasks;
          result = (if searchQuery \<noteq> []
                    then filter (matchesSearch toLowerCase userList isAdmin searchQuery) result
                    else result);
          result = (if length (fStatus filters) > 0
                    then filter (\<lambda>task. status task \<in> set (fStatus filters)) result
                    else result);
          result = (if length (fTypes filters) > 0
                    then filter (\<lambda>task. wtype task \<in> set (fTypes filters)) result
                    else result);
          result = (if length (fPriorities filters) > 0
                    then filter (\<lambda>task. priority task \<in> set (fPriorities filters)) result
                    else result);
          result = (if length (fUsers filters) > 0
                    then filter (\<lambda>task. userId task \<in> set (fUsers filters)) result
                    else result);
          result = (if length (fMaterialStatus filters) > 0
                    then filter (\<lambda>task. case materialStatus task of None \<Rightarrow> False
                                   | Some m \<Rightarrow> m \<in> set (fMaterialStatus filters)) result
                    else result);
          result = (case fRequiresMaterial filters of None \<Rightarrow> result
                    | Some want \<Rightarrow> filter (\<lambda>task. requiresMaterial task = want) result);
          result = (case fHasDocuments filters of None \<Rightarrow> result
                    | Some want \<Rightarrow> filter (hasDocumentsTest want) result);
          result = (case fHasPrice filters of None \<Rightarrow> result
                    | Some want \<Rightarrow> filter (hasPriceTest want) result)
      in result)"

definition filteredAndSortedTasks ::
  "(string \<Rightarrow> string) \<Rightarrow> (string \<Rightarrow> string \<Rightarrow> int) \<Rightarrow> UserInfo list \<Rightarrow> bool \<Rightarrow> string \<Rightarrow>
     SortOption \<Rightarrow> Filters \<Rightarrow> Task list \<Rightarrow> Task list" where
  "filteredAndSortedTasks toLowerCase localeCompare userList isAdmin searchQuery sortBy filters tasks =
     sortTasks localeCompare sortBy
       (applyFilters toLowerCase userList isAdmin searchQuery filters tasks)"

text \<open>
  The specification's reading of a filter configuration, to compare the code with: an
  item satisfies the configuration when it passes every configured dimension; a
  dimension with an empty set, a tri-state that is null, or an empty query is not
  configured.
\<close>

definition satisfiesConfigured ::
  "(string \<Rightarrow> string) \<Rightarrow> UserInfo list \<Rightarrow> bool \<Rightarrow> string \<Rightarrow> Filters \<Rightarrow> Task \<Rightarrow> bool" where
  "satisfiesConfigured toLowerCase userList isAdmin searchQuery filters task \<longleftrightarrow>
     (searchQuery \<noteq> [] \<longrightarrow> matchesSearch toLowerCase userList isAdmin searchQuery task) \<and>
     (fStatus filters \<noteq> [] \<longrightarrow> status task \<in> set (fStatus filters)) \<and>
     (fTypes filters \<noteq> [] \<longrightarrow> wtype task \<in> set (fTypes filters)) \<and>
     (fPriorities filters \<noteq> [] \<longrightarrow> priority task \<in> set (fPriorities filters)) \<and>
     (fUsers filters \<noteq> [] \<longrightarrow> userId task \<in> set (fUsers filters)) \<and>
     (fMaterialStatus filters \<noteq> [] \<longrightarrow>
        (\<exists>m. materialStatus task = Some m \<and> m \<in> set (fMaterialStatus filters))) \<and>
     (\<forall>want. fRequiresMaterial filters = Some want \<longrightarrow> requiresMaterial task = want) \<and>
     (fHasDocuments filters = Some True \<longrightarrow> images task \<noteq> []) \<and>
     (fHasDocuments filters = Some False \<longrightarrow> images task = []) \<and>
     (fHasPrice filters = Some True \<longrightarrow> quotedPrice task \<noteq> Null \<or> confirmedPrice task \<noteq> Null) \<and>
     (fHasPrice filters = Some False \<longrightarrow> quotedPrice task = Null \<and> confirmedPrice task = Null)"

text \<open>An ASCII lower-casing, one instance of \<open>toLowerCase\<close>, to run examples with.\<close>

definition asciiLower :: "string \<Rightarrow> string" where
  "asciiLower s = map (\<lambda>c. if CHR ''A'' \<le> c \<and> c \<le> CHR ''Z'' then char_of (of_char c + (32::nat)) else c) s"

section \<open>Dashboard metrics (src/app/page.tsx, lines 61-97)\<close>

record Metrics =
  total :: nat
  completed :: nat
  inProgress :: nat
  notStarted :: nat
  projects :: nat
  jobs :: nat

definition newMetrics :: "Task list \<Rightarrow> Metrics" where
  "newMetrics tasks = \<lparr>
     total = length tasks,
     completed = length (filter (\<lambda>t. status t = Completed) tasks),
     inProgress = length (filter (\<lambda>t. status t = InProgress) tasks),
     notStarted = length (filter (\<lambda>t. status t = NotInitiated) tasks),
     projects = length (filter (\<lambda>t. wtype t = Project) tasks),
     jobs = length (filter (\<lambda>t. wtype t = Job) tasks) \<rparr>"

text \<open>
  Every operation of \<^verbatim>\<open>calculateAverageCompletionTime\<close> on numbers is rounded to a
  double: the difference of the two time values, its quotient by the milliseconds of a
  day, each addition to the running sum, and the division by the count. The time values
  themselves and the product \<^verbatim>\<open>1000 * 60 * 60 * 24\<close> are integers below \<open>2 ^ 53\<close> in
  magnitude, which are doubles. \<^verbatim>\<open>Math.round\<close> is exact on its argument and rounds half
  up, which is \<^const>\<open>round\<close>. The non-null assertions \<^verbatim>\<open>task.dateCompleted!\<close> are
  reads of fields the filter has just found present.
\<close>

definition calculateAverageCompletionTime :: "Task list \<Rightarrow> int" where
  "calculateAverageCompletionTime tasks =
     (let completedTasks = filter (\<lambda>t. dateCompleted t \<noteq> None \<and> dateInitiated t \<noteq> None) tasks
      in if length completedTasks = 0 then 0
         else let totalDays = foldl (\<lambda>sum task.
                      let completionTime = binary64 (real_of_int
                            (the (dateCompleted task) - the (dateInitiated task)))
                      in binary64 (sum + binary64 (completionTime
                                                    / (1000 * 60 * 60 * 24)))) 0 completedTasks
              in round (binary64 (totalDays / real (length completedTasks))))"

text \<open>
  The specification's reading, to compare the code with: the items that count, the
  duration of one of them in milliseconds, and the exact mean of their durations in
  days.
\<close>

definition withBothDates :: "Task list \<Rightarrow> Task list" where
  "withBothDates tasks = filter (\<lambda>t. dateCompleted t \<noteq> None \<and> dateInitiated t \<noteq> None) tasks"

definition durationMs :: "Task \<Rightarrow> int" where
  "durationMs t = the (dateCompleted t) - the (dateInitiated t)"

definition exactMeanDays :: "Task list \<Rightarrow> real" where
  "exactMeanDays tasks =
     sum_list (map (\<lambda>t. real_of_int (durationMs t) / 86400000) (withBothDates tasks))
       / real (length (withBothDates tasks))"

section \<open>The date library\<close>

text \<open>
  The functions of date-fns that the reports and the report dialog call, taken as
  parameters: each maps an instant to an instant. \<^verbatim>\<open>isAfter(a, b)\<close> is \<open>b < a\<close>.
\<close>

record datefns =
  startOfDay :: "int \<Rightarrow> int"
  endOfDay :: "int \<Rightarrow> int"
  startOfWeek :: "int \<Rightarrow> int"
  endOfWeek :: "int \<Rightarrow> int"
  startOfMonth :: "int \<Rightarrow> int"
  endOfMonth :: "int \<Rightarrow> int"
  startOfQuarter :: "int \<Rightarrow> int"
  endOfQuarter :: "int \<Rightarrow> int"
  startOfYear :: "int \<Rightarrow> int"
  endOfYear :: "int \<Rightarrow> int"

text \<open>
  One instance, to run examples with: the proleptic Gregorian calendar in UTC, weeks
  starting on Sunday (the library's default). Day 0 is Thursday 1 January 1970.
\<close>

definition msPerDay :: int where
  "msPerDay = 86400000"

definition daysFromCivil :: "int \<Rightarrow> int \<Rightarrow> int \<Rightarrow> int" where
  "daysFromCivil y m d =
     (let y' = (if m \<le> 2 then y - 1 else y);
          era = y' div 400;
          yoe = y' - era * 400;
          mp = (if 2 < m then m - 3 else m + 9);
          doy = (153 * mp + 2) div 5 + d - 1;
          doe = yoe * 365 + yoe div 4 - yoe div 100 + doy
      in era * 146097 + doe - 719468)"

definition civilFromDays :: "int \<Rightarrow> int \<times> int" where
  "civilFromDays z =
     (let z' = z + 719468;
          era = z' div 146097;
          doe = z' - era * 146097;
          yoe = (doe - doe div 1460 + doe div 36524 - doe div 146096) div 365;
          doy = doe - (365 * yoe + yoe div 4 - yoe div 100);
          mp = (5 * doy + 2) div 153;
          m = (if mp < 10 then mp + 3 else mp - 9)
      in (yoe + era * 400 + (if m \<le> 2 then 1 else 0), m))"

definition firstOfMonth :: "int \<Rightarrow> int \<Rightarrow> int" where
  "firstOfMonth y m =
     (if 12 < m then daysFromCivil (y + 1) (m - 12) 1 else daysFromCivil y m 1) * msPerDay"

definition utc :: datefns where
  "utc = \<lparr>
     startOfDay = (\<lambda>t. (t div msPerDay) * msPerDay),
     endOfDay = (\<lambda>t. (t div msPerDay) * msPerDay + msPerDay - 1),
     startOfWeek = (\<lambda>t. let d = t div msPerDay in (d - (d + 4) mod 7) * msPerDay),
     endOfWeek = (\<lambda>t. let d = t div msPerDay in (d - (d + 4) mod 7 + 7) * msPerDay - 1),
     startOfMonth = (\<lambda>t. case civilFromDays (t div msPerDay) of (y, m) \<Rightarrow> firstOfMonth y m),
     endOfMonth = (\<lambda>t. case civilFromDays (t div msPerDay) of (y, m) \<Rightarrow>
        firstOfMonth y (m + 1) - 1),
     startOfQuarter = (\<lambda>t. case civilFromDays (t div msPerDay) of (y, m) \<Rightarrow>
        firstOfMonth y ((m - 1) div 3 * 3 + 1)),
     endOfQuarter = (\<lambda>t. case civilFromDays (t div msPerDay) of (y, m) \<Rightarrow>
        firstOfMonth y ((m - 1) div 3 * 3 + 4) - 1),
     startOfYear = (\<lambda>t. case civilFromDays (t div msPerDay) of (y, m) \<Rightarrow> firstOfMonth y 1),
     endOfYear = (\<lambda>t. case civilFromDays (t div msPerDay) of (y, m) \<Rightarrow>
        firstOfMonth (y + 1) 1 - 1) \<rparr>"

section \<open>The report renderers (src/lib/email.ts, lines 59-597)\<close>

datatype ReportPeriod = Daily | Weekly | Monthly | Quarterly | Yearly

text \<open>
  An optional flag is \<open>None\<close> when the caller leaves it out; \<open>selectedTasks\<close> is
  \<open>Some\<close> whenever an array is passed, the empty array included (an array is truthy).
\<close>

record ReportOptions =
  period :: ReportPeriod
  startDate :: "int option"
  endDate :: "int option"
  includeCompleted :: "bool option"
  includeInProgress :: "bool option"
  includeNotStarted :: "bool option"
  includeProjects :: "bool option"
  includeJobs :: "bool option"
  includePriceDetails :: "bool option"
  selectedTasks :: "string list option"

fun getDefaultDateRange :: "datefns \<Rightarrow> ReportPeriod \<Rightarrow> int \<Rightarrow> int \<times> int" where
  "getDefaultDateRange D Daily date = (startOfDay D date, endOfDay D date)"
| "getDefaultDateRange D Weekly date = (startOfWeek D date, endOfWeek D date)"
| "getDefaultDateRange D Monthly date = (startOfMonth D date, endOfMonth D date)"
| "getDefaultDateRange D Quarterly date = (startOfQuarter D date, endOfQuarter D date)"
| "getDefaultDateRange D Yearly date = (startOfYear D date, endOfYear D date)"

text \<open>The \<^verbatim>\<open>dateRange\<close> both renderers start with; \<open>now\<close> is \<^verbatim>\<open>new Date()\<close>.\<close>

definition reportDateRange :: "datefns \<Rightarrow> int \<Rightarrow> ReportOptions \<Rightarrow> (int \<times> int) option" where
  "reportDateRange D now options =
     (case (startDate options, endDate options) of
        (Some s, Some e) \<Rightarrow> Some (startOfDay D s, endOfDay D e)
      | _ \<Rightarrow> if period options = Daily then Some (getDefaultDateRange D Daily now) else None)"

text \<open>\<^verbatim>\<open>flag ?? true\<close>.\<close>

fun orTrue :: "bool option \<Rightarrow> bool" where
  "orTrue None = True"
| "orTrue (Some b) = b"

fun statusFilters :: "ReportOptions \<Rightarrow> TaskStatus \<Rightarrow> bool" where
  "statusFilters options Completed = orTrue (includeCompleted options)"
| "statusFilters options InProgress = orTrue (includeInProgress options)"
| "statusFilters options NotInitiated = orTrue (includeNotStarted options)"

fun typeFilters :: "ReportOptions \<Rightarrow> WorkItemType \<Rightarrow> bool" where
  "typeFilters options Project = orTrue (includeProjects options)"
| "typeFilters options Job = orTrue (includeJobs options)"

text \<open>The filter and the sort that both renderers run, statement for statement the same.\<close>

definition reportTasks :: "datefns \<Rightarrow> int \<Rightarrow> Task list \<Rightarrow> ReportOptions \<Rightarrow> Task list" where
  "reportTasks D now tasks options =
     (let dateRange = reportDateRange D now options;
          filteredTasks =
            (case selectedTasks options of
               Some sel \<Rightarrow> filter (\<lambda>task. taskId task \<in> set sel) tasks
             | None \<Rightarrow>
                 (let byDate = (case dateRange of
                        Some (start, end) \<Rightarrow>
                          filter (\<lambda>task. start \<le> createdAt task \<and> createdAt task \<le> end) tasks
                      | None \<Rightarrow> tasks)
                  in filter (\<lambda>task. statusFilters options (status task) \<and>
                                     typeFilters options (wtype task)) byDate))
      in array_sort (\<lambda>a b. real_of_int (createdAt b - createdAt a)) filteredTasks)"

record ReportSummary =
  totalTasks :: nat
  sumCompleted :: nat
  sumInProgress :: nat
  sumNotStarted :: nat
  sumProjects :: nat
  sumJobs :: nat
  urgent :: nat
  high :: nat
  medium :: nat
  low :: nat
  confirmedWork :: nat
  awaitingConfirmation :: nat
  withPO :: nat

text \<open>\<^verbatim>\<open>t.poNumber\<close> is truthy when it is a non-empty string.\<close>

definition reportSummary :: "Task list \<Rightarrow> ReportSummary" where
  "reportSummary filteredTasks = \<lparr>
     totalTasks = length filteredTasks,
     sumCompleted = length (filter (\<lambda>t. status t = Completed) filteredTasks),
     sumInProgress = length (filter (\<lambda>t. status t = InProgress) filteredTasks),
     sumNotStarted = length (filter (\<lambda>t. status t = NotInitiated) filteredTasks),
     sumProjects = length (filter (\<lambda>t. wtype t = Project) filteredTasks),
     sumJobs = length (filter (\<lambda>t. wtype t = Job) filteredTasks),
     urgent = length (filter (\<lambda>t. priority t = Urgent) filteredTasks),
     high = length (filter (\<lambda>t. priority t = High) filteredTasks),
     medium = length (filter (\<lambda>t. priority t = Medium) filteredTasks),
     low = length (filter (\<lambda>t. priority t = Low) filteredTasks),
     confirmedWork = length (filter (\<lambda>t. workConfirmationStatus t = Confirmed) filteredTasks),
     awaitingConfirmation = length (filter (\<lambda>t. workConfirmationStatus t = Awaiting) filteredTasks),
     withPO = length (filter (\<lambda>t. poNumber t \<noteq> None \<and> poNumber t \<noteq> Some []) filteredTasks) \<rparr>"

text \<open>\<^verbatim>\<open>sum + (task.quotedPrice || 0)\<close>, each addition rounded to a double.\<close>

definition totalQuoted :: "Task list \<Rightarrow> real" where
  "totalQuoted filteredTasks =
     foldl (\<lambda>sum task. binary64 (sum + num_of (js_or (quotedPrice task) (Num 0)))) 0
       filteredTasks"

definition totalConfirmed :: "Task list \<Rightarrow> real" where
  "totalConfirmed filteredTasks =
     foldl (\<lambda>sum task. binary64 (sum + num_of (js_or (confirmedPrice task) (Num 0)))) 0
       filteredTasks"

text \<open>\<^verbatim>\<open>options.period.charAt(0).toUpperCase() + options.period.slice(1)\<close>.\<close>

fun periodName :: "ReportPeriod \<Rightarrow> string" where
  "periodName Daily = ''Daily''"
| "periodName Weekly = ''Weekly''"
| "periodName Monthly = ''Monthly''"
| "periodName Quarterly = ''Quarterly''"
| "periodName Yearly = ''Yearly''"

text \<open>
  What \<^verbatim>\<open>generatePDFReport\<close> draws, in the order it draws it: the title, the
  generation date, the period line (when drawn), the table and the summary. A table row
  is kept as the task it shows and, when price details are asked for, its two price
  cells; the other cell texts and the layout are left out.

  \<^verbatim>\<open>formatPrice\<close> tests its argument with \<^verbatim>\<open>!== null\<close> and then calls
  \<^verbatim>\<open>toFixed\<close> on it, which throws a \<^verbatim>\<open>TypeError\<close> on \<^verbatim>\<open>undefined\<close>; the error
  leaves \<^verbatim>\<open>generatePDFReport\<close> without a document.
\<close>

datatype error = TypeError

datatype priceText = Dash | Dollars real

fun formatPrice :: "price \<Rightarrow> error + priceText" where
  "formatPrice Null = Inr Dash"
| "formatPrice (Num x) = Inr (Dollars x)"
| "formatPrice Undefined = Inl TypeError"

record PDFRow =
  rowTask :: Task
  rowPrices :: "(priceText \<times> priceText) option"

definition tableRow :: "ReportOptions \<Rightarrow> Task \<Rightarrow> error + PDFRow" where
  "tableRow options task =
     (if includePriceDetails options = Some True then
        (case formatPrice (quotedPrice task) of
           Inl e \<Rightarrow> Inl e
         | Inr q \<Rightarrow>
             (case formatPrice (confirmedPrice task) of
                Inl e \<Rightarrow> Inl e
              | Inr c \<Rightarrow> Inr \<lparr> rowTask = task, rowPrices = Some (q, c) \<rparr>))
      else Inr \<lparr> rowTask = task, rowPrices = None \<rparr>)"

text \<open>\<^verbatim>\<open>xs.map(f)\<close> with a callback that may throw: the first error ends the loop.\<close>

fun map_throwing :: "('a \<Rightarrow> error + 'b) \<Rightarrow> 'a list \<Rightarrow> error + 'b list" where
  "map_throwing f [] = Inr []"
| "map_throwing f (x # xs) =
     (case f x of
        Inl e \<Rightarrow> Inl e
      | Inr y \<Rightarrow> (case map_throwing f xs of Inl e \<Rightarrow> Inl e | Inr ys \<Rightarrow> Inr (y # ys)))"

record PDFReport =
  pdfTitle :: string
  pdfGeneratedOn :: int
  pdfPeriodLine :: "(int \<times> int) option"
  pdfRows :: "PDFRow list"
  pdfSummary :: ReportSummary
  pdfPriceSummary :: "(real \<times> real) option"

definition generatePDFReport ::
  "datefns \<Rightarrow> int \<Rightarrow> Task list \<Rightarrow> ReportOptions \<Rightarrow> error + PDFReport" where
  "generatePDFReport D now tasks options =
     (let dateRange = reportDateRange D now options;
          filteredTasks = reportTasks D now tasks options
      in case map_throwing (tableRow options) filteredTasks of
           Inl e \<Rightarrow> Inl e
         | Inr tableData \<Rightarrow>
             Inr \<lparr> pdfTitle = (if selectedTasks options \<noteq> None then ''Custom Data Report''
                               else ''Work Tasks Report - '' @ periodName (period options)),
                   pdfGeneratedOn = now,
                   pdfPeriodLine =
                     (if dateRange \<noteq> None \<and> selectedTasks options = None then dateRange
                      else None),
                   pdfRows = tableData,
                   pdfSummary = reportSummary filteredTasks,
                   pdfPriceSummary =
                     (if includePriceDetails options = Some True
                      then Some (totalQuoted filteredTasks, totalConfirmed filteredTasks)
                      else None) \<rparr>)"

text \<open>
  A cell of the workbook's summary sheet: a text, a count, an amount, a date formatted
  with pattern \<^verbatim>\<open>PPP\<close>, or the text
  \<^verbatim>\<open>${format(start, "PPP")} to ${format(end, "PPP")}\<close>.
\<close>

datatype cell = Str string | Cnt nat | Amt real | DatePPP int | RangePPP int int

record ExcelReport =
  sheetNames :: "string list"
  xlsRows :: "Task list"
  summaryData :: "cell list list"

definition generateExcelReport :: "datefns \<Rightarrow> int \<Rightarrow> Task list \<Rightarrow> ReportOptions \<Rightarrow> ExcelReport" where
  "generateExcelReport D now tasks options =
     (let dateRange = reportDateRange D now options;
          filteredTasks = reportTasks D now tasks options;
          s = reportSummary filteredTasks
      in \<lparr> sheetNames = [''Tasks'', ''Summary''],
           xlsRows = filteredTasks,
           summaryData =
             [[Str ''Report Summary''],
              [Str ''Generated On'', DatePPP now],
              [Str ''Period'', (case dateRange of Some (start, end) \<Rightarrow> RangePPP start end
                                | None \<Rightarrow> Str ''All Time'')],
              [Str []],
              [Str ''Total Tasks'', Cnt (totalTasks s)],
              [Str []],
              [Str ''Status Distribution''],
              [Str ''Completed'', Cnt (sumCompleted s)],
              [Str ''In Progress'', Cnt (sumInProgress s)],
              [Str ''Not Started'', Cnt (sumNotStarted s)],
              [Str []],
              [Str ''Type Distribution''],
              [Str ''Projects'', Cnt (sumProjects s)],
              [Str ''Jobs'', Cnt (sumJobs s)],
              [Str []],
              [Str ''Priority Distribution''],
              [Str ''Urgent'', Cnt (urgent s)],
              [Str ''High'', Cnt (high s)],
              [Str ''Medium'', Cnt (medium s)],
              [Str ''Low'', Cnt (low s)],
              [Str []],
              [Str ''Work Confirmation''],
              [Str ''Confirmed'', Cnt (confirmedWork s)],
              [Str ''Awaiting Confirmation'', Cnt (awaitingConfirmation s)],
              [Str ''With PO'', Cnt (withPO s)]]
             @ (if includePriceDetails options = Some True
                then [[Str []], [Str ''Price Summary''],
                      [Str ''Total Quoted'', Amt (totalQuoted filteredTasks)],
                      [Str ''Total Confirmed'', Amt (totalConfirmed filteredTasks)]]
                else []) \<rparr>)"

section \<open>The report dialog (src/unnamed/part_007, lines 28-127)\<close>

datatype DialogPeriod = Named ReportPeriod | Custom | Selection

record DialogState =
  dlgPeriod :: DialogPeriod
  selectedDate :: "int option"
  dlgStartDate :: "int option"
  dlgEndDate :: "int option"

text \<open>
  The notifications the handlers raise. \<open>InvalidDate\<close> is the destructive toast titled
  "Invalid Date" with the text "Cannot select dates beyond today"; \<open>CanOnlyAddMore n\<close>
  is the destructive toast titled "Error" with the text "You can only add n more file(s)".
\<close>

datatype Toast = InvalidDate | CanOnlyAddMore int

text \<open>\<^verbatim>\<open>const today = endOfDay(new Date())\<close>.\<close>

definition today :: "datefns \<Rightarrow> int \<Rightarrow> int" where
  "today D now = endOfDay D now"

text \<open>A handler returns the toast it raised, if any, and the state it leaves.\<close>

definition handleDateSelect ::
  "datefns \<Rightarrow> int \<Rightarrow> int option \<Rightarrow> DialogState \<Rightarrow> Toast option \<times> DialogState" where
  "handleDateSelect D now date st =
     (if (case date of Some d \<Rightarrow> today D now < d | None \<Rightarrow> False) then (Some InvalidDate, st)
      else
        let st1 = st\<lparr>selectedDate := date\<rparr> in
        case date of
          None \<Rightarrow> (None, st1)
        | Some d \<Rightarrow>
            (case (case dlgPeriod st of
                     Named Weekly \<Rightarrow> Some (startOfWeek D d, endOfWeek D d)
                   | Named Monthly \<Rightarrow> Some (startOfMonth D d, endOfMonth D d)
                   | Named Quarterly \<Rightarrow> Some (startOfQuarter D d, endOfQuarter D d)
                   | Named Yearly \<Rightarrow> Some (startOfYear D d, endOfYear D d)
                   | _ \<Rightarrow> None) of
               None \<Rightarrow> (None, st1)
             | Some (start, end) \<Rightarrow>
                 (let end = (if today D now < end then today D now else end)
                  in (None, st1\<lparr>dlgStartDate := Some start, dlgEndDate := Some end\<rparr>))))"

definition handleStartDateSelect ::
  "datefns \<Rightarrow> int \<Rightarrow> int option \<Rightarrow> DialogState \<Rightarrow> Toast option \<times> DialogState" where
  "handleStartDateSelect D now date st =
     (if (case date of Some d \<Rightarrow> today D now < d | None \<Rightarrow> False) then (Some InvalidDate, st)
      else
        let st1 = st\<lparr>dlgStartDate := date\<rparr> in
        if (case (date, dlgEndDate st) of (Some d, Some e) \<Rightarrow> e < d | _ \<Rightarrow> False)
        then (None, st1\<lparr>dlgEndDate := None\<rparr>)
        else (None, st1))"

definition handleEndDateSelect ::
  "datefns \<Rightarrow> int \<Rightarrow> int option \<Rightarrow> DialogState \<Rightarrow> Toast option \<times> DialogState" where
  "handleEndDateSelect D now date st =
     (if (case date of Some d \<Rightarrow> today D now < d | None \<Rightarrow> False) then (Some InvalidDate, st)
      else (None, st\<lparr>dlgEndDate := date\<rparr>))"

section \<open>Attaching documents in the task editor (src/unnamed/part_005, lines 496-502 and 610-632)\<close>

text \<open>
  A file is known by its name; \<open>createObjectURL\<close> is the platform's
  \<^verbatim>\<open>URL.createObjectURL\<close>, taken as a parameter.
\<close>

record TaskImage =
  imgFile :: string
  preview :: string

record EditorState =
  taskImages :: "TaskImage list"
  existingImages :: "string list"

definition handleFileChange ::
  "(string \<Rightarrow> string) \<Rightarrow> string list \<Rightarrow> EditorState \<Rightarrow> Toast option \<times> EditorState" where
  "handleFileChange createObjectURL files st =
     (if files \<noteq> [] then
        let totalFiles = length (taskImages st) + length (existingImages st);
            remainingSlots = 50 - int totalFiles
        in if remainingSlots < int (length files) then (Some (CanOnlyAddMore remainingSlots), st)
           else
             let newFiles = map (\<lambda>f. \<lparr> imgFile = f, preview = createObjectURL f \<rparr>) files
             in (None, st\<lparr>taskImages := taskImages st @ newFiles\<rparr>)
      else (None, st))"

section \<open>Facts about sorting\<close>

lemma mset_insort_cmp: "mset (insort_cmp cmp x ys) = add_mset x (mset ys)"
  by (induction ys) simp_all

lemma mset_array_sort: "mset (array_sort cmp xs) = mset xs"
  by (induction xs) (simp_all add: mset_insort_cmp)

lemma set_insort_cmp: "set (insort_cmp cmp x ys) = insert x (set ys)"
  by (induction ys) auto

lemma sorted_insort_cmp:
  assumes total: "\<And>a b. \<not> cmp a b \<le> 0 \<Longrightarrow> cmp b a \<le> 0"
    and trans: "\<And>a b c. cmp a b \<le> 0 \<Longrightarrow> cmp b c \<le> 0 \<Longrightarrow> cmp a c \<le> 0"
    and sorted: "sorted_wrt (\<lambda>a b. cmp a b \<le> 0) ys"
  shows "sorted_wrt (\<lambda>a b. cmp a b \<le> 0) (insort_cmp cmp x ys)"
  using sorted
proof (induction ys)
  case Nil
  show ?case by simp
next
  case (Cons y ys)
  show ?case
  proof (cases "cmp x y \<le> 0")
    case True
    have "\<forall>z\<in>set ys. cmp x z \<le> 0"
      using Cons.prems True trans by auto
    with True Cons.prems show ?thesis by simp
  next
    case False
    then have "cmp y x \<le> 0" by (rule total)
    with False Cons show ?thesis by (auto simp: set_insort_cmp)
  qed
qed

lemma sorted_array_sort:
  assumes "\<And>a b. \<not> cmp a b \<le> 0 \<Longrightarrow> cmp b a \<le> 0"
    and "\<And>a b c. cmp a b \<le> 0 \<Longrightarrow> cmp b c \<le> 0 \<Longrightarrow> cmp a c \<le> 0"
  shows "sorted_wrt (\<lambda>a b. cmp a b \<le> 0) (array_sort cmp xs)"
proof (induction xs)
  case Nil
  show ?case by simp
next
  case (Cons x xs)
  show ?case
    using sorted_insort_cmp [of cmp, OF assms Cons.IH] by simp
qed

lemma array_sort_sorted:
  "sorted_wrt (\<lambda>a b. cmp a b \<le> 0) xs \<Longrightarrow> array_sort cmp xs = xs"
proof (induction xs)
  case Nil
  show ?case by simp
next
  case (Cons x xs)
  then have "array_sort cmp xs = xs" by simp
  with Cons.prems show ?case by (cases xs) simp_all
qed

lemma compareTasks_total:
  assumes "consistent lc" and "\<not> compareTasks lc m a b \<le> 0"
  shows "compareTasks lc m b a \<le> 0"
  using assms by (cases m) (auto simp: consistent_def Let_def split: if_splits)

lemma compareTasks_trans:
  assumes "consistent lc" and "compareTasks lc m a b \<le> 0" and "compareTasks lc m b c \<le> 0"
  shows "compareTasks lc m a c \<le> 0"
proof (cases m)
  case TitleAsc
  with assms show ?thesis unfolding consistent_def by simp
next
  case TitleDesc
  with assms show ?thesis unfolding consistent_def by simp
qed (use assms in \<open>auto simp: Let_def split: if_splits\<close>)

lemma sorted_sortTasks:
  assumes "consistent lc"
  shows "sorted_wrt (\<lambda>a b. compareTasks lc m a b \<le> 0) (sortTasks lc m xs)"
  unfolding sortTasks_def
  by (rule sorted_array_sort) (blast intro: compareTasks_total compareTasks_trans assms)+

lemma consistent_codeUnitCompare: "consistent codeUnitCompare"
  by (auto simp: consistent_def codeUnitCompare_def split: if_splits)

lemma compareTasks_lc_irrelevant:
  "m \<noteq> TitleAsc \<Longrightarrow> m \<noteq> TitleDesc \<Longrightarrow> compareTasks lc m = compareTasks lc' m"
  by (cases m) (auto simp: fun_eq_iff)

lemma sortTasks_sorted_id:
  "sorted_wrt (\<lambda>a b. compareTasks lc m a b \<le> 0) xs \<Longrightarrow> sortTasks lc m xs = xs"
  unfolding sortTasks_def by (rule array_sort_sorted)

lemma sortTasks_idem:
  assumes "m = TitleAsc \<or> m = TitleDesc \<Longrightarrow> consistent lc"
  shows "sortTasks lc m (sortTasks lc m xs) = sortTasks lc m xs"
proof (cases "m = TitleAsc \<or> m = TitleDesc")
  case True
  then have "consistent lc" by (rule assms)
  then show ?thesis by (intro sortTasks_sorted_id sorted_sortTasks)
next
  case False
  then have eq: "compareTasks lc m = compareTasks codeUnitCompare m"
    by (intro compareTasks_lc_irrelevant) auto
  have "sortTasks codeUnitCompare m (sortTasks codeUnitCompare m xs) = sortTasks codeUnitCompare m xs"
    by (intro sortTasks_sorted_id sorted_sortTasks consistent_codeUnitCompare)
  then show ?thesis by (simp add: sortTasks_def eq)
qed

lemma sorted_wrt_precedes:
  assumes "sorted_wrt P ys" and "i < length ys" and "j < length ys"
    and "\<not> P (ys ! j) (ys ! i)" and "i \<noteq> j"
  shows "i < j"
proof (rule ccontr)
  assume "\<not> i < j"
  with \<open>i \<noteq> j\<close> have "j < i" by simp
  with assms(1,2) have "P (ys ! j) (ys ! i)" by (simp add: sorted_wrt_iff_nth_less)
  with assms(4) show False by simp
qed

lemma priority_high_sorted:
  "sorted_wrt (\<lambda>a b. PRIORITY_ORDER (priority b) \<le> PRIORITY_ORDER (priority a) \<and>
      (PRIORITY_ORDER (priority a) = PRIORITY_ORDER (priority b) \<longrightarrow> createdAt b \<le> createdAt a))
    (sortTasks lc PriorityHigh xs)"
proof -
  have "sorted_wrt (\<lambda>a b. compareTasks codeUnitCompare PriorityHigh a b \<le> 0)
          (sortTasks codeUnitCompare PriorityHigh xs)"
    by (rule sorted_sortTasks) (rule consistent_codeUnitCompare)
  then have "sorted_wrt (\<lambda>a b. compareTasks codeUnitCompare PriorityHigh a b \<le> 0)
          (sortTasks lc PriorityHigh xs)"
    unfolding sortTasks_def
    by (subst compareTasks_lc_irrelevant [of PriorityHigh lc codeUnitCompare]) simp_all
  then show ?thesis
    by (rule sorted_wrt_mono_rel [rotated]) (auto simp: Let_def split: if_splits)
qed

lemma priority_low_sorted:
  "sorted_wrt (\<lambda>a b. PRIORITY_ORDER (priority a) \<le> PRIORITY_ORDER (priority b) \<and>
      (PRIORITY_ORDER (priority a) = PRIORITY_ORDER (priority b) \<longrightarrow> createdAt b \<le> createdAt a))
    (sortTasks lc PriorityLow xs)"
proof -
  have "sorted_wrt (\<lambda>a b. compareTasks codeUnitCompare PriorityLow a b \<le> 0)
          (sortTasks codeUnitCompare PriorityLow xs)"
    by (rule sorted_sortTasks) (rule consistent_codeUnitCompare)
  then have "sorted_wrt (\<lambda>a b. compareTasks codeUnitCompare PriorityLow a b \<le> 0)
          (sortTasks lc PriorityLow xs)"
    unfolding sortTasks_def
    by (subst compareTasks_lc_irrelevant [of PriorityLow lc codeUnitCompare]) simp_all
  then show ?thesis
    by (rule sorted_wrt_mono_rel [rotated]) (auto simp: Let_def split: if_splits)
qed

lemma effectivePrice_cases:
  "effectivePrice t =
     (case confirmedPrice t of
        Num c \<Rightarrow> if c \<noteq> 0 then c else (case quotedPrice t of Num q \<Rightarrow> q | _ \<Rightarrow> 0)
      | _ \<Rightarrow> (case quotedPrice t of Num q \<Rightarrow> q | _ \<Rightarrow> 0))"
  by (auto simp: effectivePrice_def js_or_def split: price.splits)

section \<open>Facts about double-precision arithmetic\<close>

lemma powi2_Suc: "(2::real) powi (k + 1) = 2 * 2 powi k"
  by (simp add: power_int_add)

lemma powi2_pred: "(2::real) powi (k - 1) = 2 powi k / 2"
  by (simp add: power_int_diff)

lemma halvings_bounds:
  "1 \<le> x \<Longrightarrow> x < 2 ^ n \<Longrightarrow> 2 powi (halvings n x) \<le> x \<and> x < 2 powi (halvings n x + 1)"
proof (induction n arbitrary: x)
  case 0
  then show ?case by simp
next
  case (Suc n)
  show ?case
  proof (cases "x < 2")
    case True
    with Suc.prems show ?thesis by simp
  next
    case False
    define k where "k = halvings n (x / 2)"
    from False Suc.prems have "1 \<le> x / 2" "x / 2 < 2 ^ n" by simp_all
    then have "2 powi k \<le> x / 2 \<and> x / 2 < 2 powi (k + 1)"
      unfolding k_def by (rule Suc.IH)
    then have f: "2 * 2 powi k \<le> x" "x < 2 * 2 powi (k + 1)" by simp_all
    have h: "halvings (Suc n) x = k + 1" using False by (simp add: k_def)
    show ?thesis
      unfolding h powi2_Suc [of "k + 1"] powi2_Suc [of k] using f
      by (simp add: powi2_Suc)
  qed
qed

lemma doublings_ge_1: "1 \<le> y \<Longrightarrow> doublings n y = 0"
  by (cases n) simp_all

lemma doublings_bounds:
  "0 < x \<Longrightarrow> x < 1 \<Longrightarrow> 2 powi (- int n) \<le> x \<Longrightarrow>
     2 powi (doublings n x) \<le> x \<and> x < 2 powi (doublings n x + 1)"
proof (induction n arbitrary: x)
  case 0
  then show ?case by simp
next
  case (Suc n)
  define k where "k = doublings n (2 * x)"
  from Suc.prems have h: "doublings (Suc n) x = k - 1" by (simp add: k_def)
  have e: "(2::real) powi (k - 1 + 1) = 2 powi k" by simp
  show ?case
  proof (cases "1 \<le> 2 * x")
    case True
    then have "k = 0" unfolding k_def by (rule doublings_ge_1)
    with Suc.prems True show ?thesis
      unfolding h e powi2_pred by simp
  next
    case False
    have "- int (Suc n) = - int n - 1" by simp
    then have "(2::real) powi (- int (Suc n)) = 2 powi (- int n - 1)" by (simp only:)
    also have "\<dots> = 2 powi (- int n) / 2" by (rule powi2_pred)
    finally have "2 powi (- int n) / 2 \<le> x" using Suc.prems(3) by simp
    then have "2 powi (- int n) \<le> 2 * x" by simp
    with Suc.prems False
    have "2 powi k \<le> 2 * x \<and> 2 * x < 2 powi (k + 1)"
      unfolding k_def by (intro Suc.IH) simp_all
    then have "2 powi k / 2 \<le> x" "x < 2 powi k"
      by (simp_all add: powi2_Suc)
    then show ?thesis
      unfolding h e powi2_pred by simp
  qed
qed

lemma exponent_bounds:
  assumes "2 powi (- 1022) \<le> \<bar>x\<bar>" and "\<bar>x\<bar> < 2 ^ 1024"
  shows "2 powi (exponent x) \<le> \<bar>x\<bar> \<and> \<bar>x\<bar> < 2 powi (exponent x + 1)"
proof (cases "1 \<le> \<bar>x\<bar>")
  case True
  with assms(2) show ?thesis
    unfolding exponent_def using halvings_bounds [of "\<bar>x\<bar>" 1024] by simp
next
  case False
  have "0 < (2::real) powi (- 1022)" by simp
  with assms(1) have "0 < \<bar>x\<bar>" by linarith
  with False assms(1) show ?thesis
    unfolding exponent_def using doublings_bounds [of "\<bar>x\<bar>" 1022] by simp
qed

lemma roundHalfEven_err: "\<bar>of_int (roundHalfEven q) - q\<bar> \<le> 1 / 2"
proof -
  have "of_int \<lfloor>q\<rfloor> \<le> q" "q < of_int \<lfloor>q\<rfloor> + 1" by linarith+
  then show ?thesis
    by (auto simp: roundHalfEven_def Let_def)
qed

lemma binary64_rel:
  assumes "2 powi (- 1022) \<le> \<bar>x\<bar>" and "\<bar>x\<bar> < 2 ^ 1024"
  shows "\<bar>binary64 x - x\<bar> \<le> \<bar>x\<bar> / 2 ^ 53"
proof -
  define u :: real where "u = 2 powi (exponent x - 52)"
  have u: "0 < u" by (simp add: u_def)
  have "0 < (2::real) powi (- 1022)" by simp
  with assms(1) have nz: "x \<noteq> 0" by auto
  then have b: "binary64 x = of_int (roundHalfEven (x / u)) * u"
    by (simp add: binary64_def u_def Let_def)
  have "binary64 x - x = (of_int (roundHalfEven (x / u)) - x / u) * u"
    using u by (simp add: b algebra_simps)
  then have "\<bar>binary64 x - x\<bar> = \<bar>of_int (roundHalfEven (x / u)) - x / u\<bar> * u"
    using u by (simp add: abs_mult)
  also have "\<dots> \<le> (1 / 2) * u"
    using roundHalfEven_err [of "x / u"] u by (intro mult_right_mono) simp_all
  also have "(1 / 2) * u = 2 powi (exponent x) / 2 ^ 53"
    by (simp add: u_def power_int_diff)
  also have "\<dots> \<le> \<bar>x\<bar> / 2 ^ 53"
    using exponent_bounds [OF assms] by (simp add: divide_right_mono)
  finally show ?thesis .
qed

lemma binary64_0: "binary64 0 = 0"
  by (simp add: binary64_def)

text \<open>Rounding a non-negative number that is zero or in the normal range.\<close>

lemma binary64_nonneg_bounds:
  assumes "x = 0 \<or> (2 powi (- 1022) \<le> x \<and> x < 2 ^ 1024)"
  shows "(1 - 1 / 2 ^ 53) * x \<le> binary64 x \<and> binary64 x \<le> (1 + 1 / 2 ^ 53) * x"
proof (cases "x = 0")
  case True
  then show ?thesis by (simp add: binary64_0)
next
  case False
  with assms have r: "2 powi (- 1022) \<le> x" "x < 2 ^ 1024" by simp_all
  have "0 < (2::real) powi (- 1022)" by simp
  with r have p: "0 < x" by linarith
  with r have "\<bar>binary64 x - x\<bar> \<le> \<bar>x\<bar> / 2 ^ 53"
    by (intro binary64_rel) simp_all
  with p have ab: "\<bar>binary64 x - x\<bar> \<le> x / 2 ^ 53" by simp
  define d where "d = x / 2 ^ 53"
  have "\<bar>binary64 x - x\<bar> \<le> d" using ab unfolding d_def .
  moreover have "(1 - 1 / 2 ^ 53) * x = x - d" "(1 + 1 / 2 ^ 53) * x = x + d"
    by (simp_all add: d_def algebra_simps)
  ultimately show ?thesis by (simp add: abs_le_iff)
qed

lemma pow_1_plus_eps_le_3:
  assumes "k \<le> 2 ^ 53"
  shows "(1 + 1 / 2 ^ 53 :: real) ^ k \<le> 3"
proof -
  have "1 + 1 / 2 ^ 53 \<le> exp (1 / 2 ^ 53 :: real)"
    by (rule exp_ge_add_one_self)
  then have "(1 + 1 / 2 ^ 53 :: real) ^ k \<le> exp (1 / 2 ^ 53) ^ k"
    by (rule power_mono) simp
  also have "\<dots> = exp (real k * (1 / 2 ^ 53))"
    by (rule exp_of_nat_mult [symmetric])
  also have "\<dots> \<le> exp 1"
  proof -
    from assms have "real k \<le> 2 ^ 53" by (metis of_nat_le_iff of_nat_numeral of_nat_power)
    then show ?thesis by (simp add: field_simps)
  qed
  also have "\<dots> \<le> 3" by (rule exp_le)
  finally show ?thesis .
qed

lemma pow_1_minus_eps_ge_half:
  assumes "k \<le> 2 ^ 52"
  shows "1 / 2 \<le> (1 - 1 / 2 ^ 53 :: real) ^ k"
proof -
  from assms have k: "real k \<le> 2 ^ 52" by (metis of_nat_le_iff of_nat_numeral of_nat_power)
  have "1 + real k * (- (1 / 2 ^ 53)) \<le> (1 + (- (1 / 2 ^ 53))) ^ k"
    by (rule Bernoulli_inequality) simp
  moreover have "1 / 2 \<le> 1 + real k * (- (1 / 2 ^ 53))"
    using k by (simp add: field_simps)
  ultimately show ?thesis by simp
qed

lemma sum_list_pos_ge:
  fixes xs :: "real list"
  assumes "\<forall>x\<in>set xs. x = 0 \<or> m \<le> x" and "0 < m" and "0 < sum_list xs"
  shows "m \<le> sum_list xs"
  using assms
proof (induction xs)
  case Nil
  then show ?case by simp
next
  case (Cons x xs)
  have nn: "0 \<le> sum_list xs"
    using Cons.prems(1,2) by (intro sum_list_nonneg) auto
  show ?case
  proof (cases "x = 0")
    case True
    with Cons show ?thesis by simp
  next
    case False
    with Cons.prems have "m \<le> x" by simp
    with nn show ?thesis by simp
  qed
qed

text \<open>Summation in doubles of non-negative numbers, from zero.\<close>

lemma double_sum_bounds:
  fixes xs :: "real list"
  assumes "\<forall>x\<in>set xs. x = 0 \<or> 2 powi (- 1021) \<le> x"
    and "length xs \<le> 2 ^ 52"
    and "3 * sum_list xs < 2 ^ 1024"
  shows "(1 - 1 / 2 ^ 53) ^ length xs * sum_list xs \<le> foldl (\<lambda>s x. binary64 (s + x)) 0 xs \<and>
         foldl (\<lambda>s x. binary64 (s + x)) 0 xs \<le> (1 + 1 / 2 ^ 53) ^ length xs * sum_list xs"
  using assms
proof (induction xs rule: rev_induct)
  case Nil
  show ?case by simp
next
  case (snoc x xs)
  define k where "k = length xs"
  define S where "S = sum_list xs"
  define s where "s = foldl (\<lambda>s x. binary64 (s + x)) 0 xs"
  define lo :: real where "lo = 1 - 1 / 2 ^ 53"
  define hi :: real where "hi = 1 + 1 / 2 ^ 53"
  have m0: "0 < (2::real) powi (- 1021)" by simp
  have el: "\<forall>y\<in>set xs. y = 0 \<or> 2 powi (- 1021) \<le> y" and x: "x = 0 \<or> 2 powi (- 1021) \<le> x"
    using snoc.prems(1) by simp_all
  from x m0 have x0: "0 \<le> x" by linarith
  have S0: "0 \<le> S" unfolding S_def using el m0 by (intro sum_list_nonneg) force
  have kk: "k \<le> 2 ^ 52" using snoc.prems(2) by (simp add: k_def)
  have lo1: "0 < lo" "lo \<le> 1" by (simp_all add: lo_def)
  have hi1: "1 \<le> hi" by (simp add: hi_def)
  have lok: "1 / 2 \<le> lo ^ k" "lo ^ k \<le> 1"
    using pow_1_minus_eps_ge_half [OF kk] lo1 by (simp_all add: lo_def power_le_one)
  have hik: "1 \<le> hi ^ k" "hi ^ k \<le> 3"
    using pow_1_plus_eps_le_3 [of k] kk hi1 by (simp_all add: hi_def one_le_power)
  have "3 * S < 2 ^ 1024" using snoc.prems(3) x0 by (simp add: S_def)
  with el kk have IH: "lo ^ k * S \<le> s \<and> s \<le> hi ^ k * S"
    unfolding lo_def hi_def k_def S_def s_def by (intro snoc.IH) simp_all
  have s0: "0 \<le> s"
  proof -
    have "0 \<le> lo ^ k * S" using lok S0 by simp
    with IH show ?thesis by linarith
  qed
  define pre where "pre = s + x"
  have pre0: "0 \<le> pre" using s0 x0 by (simp add: pre_def)
  have up: "pre \<le> hi ^ k * (S + x)"
  proof -
    have "x \<le> hi ^ k * x" using hik x0 by (simp add: mult_left_le_one_le mult_le_cancel_right1)
    with IH show ?thesis by (simp add: pre_def algebra_simps)
  qed
  have low: "lo ^ k * (S + x) \<le> pre"
  proof -
    have "lo ^ k * x \<le> x" using lok x0 by (simp add: mult_left_le_one_le)
    with IH show ?thesis by (simp add: pre_def algebra_simps)
  qed
  have range: "pre = 0 \<or> (2 powi (- 1022) \<le> pre \<and> pre < 2 ^ 1024)"
  proof (cases "pre = 0")
    case True
    then show ?thesis by simp
  next
    case False
    with pre0 have pp: "0 < pre" by simp
    have "0 < S + x"
    proof (rule ccontr)
      assume "\<not> 0 < S + x"
      with S0 x0 have "S + x = 0" by linarith
      with up have "pre \<le> 0" by simp
      with pp show False by simp
    qed
    then have "0 < sum_list (xs @ [x])" by (simp add: S_def)
    with snoc.prems(1) m0 have "2 powi (- 1021) \<le> sum_list (xs @ [x])"
      by (intro sum_list_pos_ge) simp_all
    then have g: "2 powi (- 1021) \<le> S + x" by (simp add: S_def)
    have "(2::real) powi (- 1022) = 2 powi (- 1021) / 2"
      using powi2_pred [of "- 1021"] by simp
    also have "\<dots> \<le> (S + x) / 2" using g by simp
    also have "\<dots> = (1 / 2) * (S + x)" by simp
    also have "\<dots> \<le> lo ^ k * (S + x)"
      using lok(1) \<open>0 < S + x\<close> by (intro mult_right_mono) simp_all
    also have "\<dots> \<le> pre" by (rule low)
    finally have a: "2 powi (- 1022) \<le> pre" .
    have "hi ^ k * (S + x) \<le> 3 * (S + x)"
      using hik(2) \<open>0 < S + x\<close> by (intro mult_right_mono) simp_all
    with up have "pre \<le> 3 * (S + x)" by linarith
    also have "\<dots> < 2 ^ 1024" using snoc.prems(3) by (simp add: S_def)
    finally have "pre < 2 ^ 1024" .
    with a show ?thesis by simp
  qed
  then have r: "lo * pre \<le> binary64 pre \<and> binary64 pre \<le> hi * pre"
    unfolding lo_def hi_def by (rule binary64_nonneg_bounds)
  have f: "foldl (\<lambda>s x. binary64 (s + x)) 0 (xs @ [x]) = binary64 pre"
    by (simp add: pre_def s_def)
  have "lo ^ Suc k * (S + x) \<le> lo * pre"
    using low lo1 by (simp add: mult.assoc)
  moreover have "hi * pre \<le> hi ^ Suc k * (S + x)"
    using up hi1 by (simp add: mult.assoc)
  ultimately have "lo ^ Suc k * (S + x) \<le> binary64 pre \<and> binary64 pre \<le> hi ^ Suc k * (S + x)"
    using r by linarith
  then show ?case
    unfolding f by (simp add: lo_def hi_def k_def S_def)
qed

lemma powi2_small:
  "(2::real) powi (- 1022) \<le> 1 / 2 ^ 60" "(2::real) powi (- 1021) \<le> 1 / 2 ^ 60"
proof -
  have "(2::real) powi (- 1022) \<le> 2 powi (- 60)" "(2::real) powi (- 1021) \<le> 2 powi (- 60)"
    by (rule power_int_increasing; simp)+
  moreover have "(2::real) powi (- 60) = 1 / 2 ^ 60"
    by (simp add: power_int_minus field_simps)
  ultimately show "(2::real) powi (- 1022) \<le> 1 / 2 ^ 60" "(2::real) powi (- 1021) \<le> 1 / 2 ^ 60"
    by simp_all
qed

lemma pow_sum_ge_2:
  "2 \<le> (1 - 1 / 2 ^ 53 :: real) ^ k + (1 + 1 / 2 ^ 53) ^ k"
proof -
  have "1 + real k * (- (1 / 2 ^ 53)) \<le> (1 + (- (1 / 2 ^ 53))) ^ k"
    by (rule Bernoulli_inequality) simp
  moreover have "1 + real k * (1 / 2 ^ 53) \<le> (1 + 1 / 2 ^ 53) ^ k"
    by (rule Bernoulli_inequality) simp
  ultimately show ?thesis by simp
qed

lemma duration_days_bounds:
  fixes d :: int
  assumes "0 \<le> d" and "d \<le> 2 ^ 54"
  shows "(1 - 1 / 2 ^ 53) * (real_of_int d / 86400000) \<le> binary64 (real_of_int d / 86400000) \<and>
         binary64 (real_of_int d / 86400000) \<le> (1 + 1 / 2 ^ 53) * (real_of_int d / 86400000) \<and>
         (binary64 (real_of_int d / 86400000) = 0 \<or>
          2 powi (- 1021) \<le> binary64 (real_of_int d / 86400000))"
proof (cases "d = 0")
  case True
  then show ?thesis by (simp add: binary64_0)
next
  case False
  define y where "y = real_of_int d / 86400000"
  from False assms have "1 \<le> d" by simp
  then have "1 \<le> real_of_int d" by simp
  then have y1: "1 / 86400000 \<le> y" by (simp add: y_def divide_right_mono)
  have "real_of_int d \<le> 2 ^ 54" using assms(2) by (metis of_int_le_iff of_int_numeral of_int_power)
  then have "y \<le> 2 ^ 54" by (simp add: y_def field_simps)
  also have "\<dots> < (2::real) ^ 1024" by (rule power_strict_increasing) simp_all
  finally have y2: "y < 2 ^ 1024" .
  have "(1::real) / 2 ^ 60 \<le> 1 / 86400000" by simp
  with powi2_small(1) y1 have "2 powi (- 1022) \<le> y" by linarith
  with y2 have b: "(1 - 1 / 2 ^ 53) * y \<le> binary64 y \<and> binary64 y \<le> (1 + 1 / 2 ^ 53) * y"
    by (intro binary64_nonneg_bounds) simp
  have "(1::real) / 2 ^ 60 \<le> (1 - 1 / 2 ^ 53) * (1 / 86400000)" by simp
  also have "\<dots> \<le> (1 - 1 / 2 ^ 53) * y" using y1 by (intro mult_left_mono) simp_all
  finally have "1 / 2 ^ 60 \<le> binary64 y" using b by linarith
  with powi2_small(2) have "2 powi (- 1021) \<le> binary64 y" by linarith
  with b show ?thesis unfolding y_def by simp
qed

lemma double_mean_bounds:
  fixes ds :: "int list"
  assumes ne: "ds \<noteq> []"
    and rng: "\<forall>d\<in>set ds. 0 \<le> d \<and> d \<le> 2 ^ 54"
    and len: "length ds \<le> 2 ^ 32"
  defines "m \<equiv> sum_list (map (\<lambda>d. real_of_int d / 86400000) ds) / real (length ds)"
    and "a \<equiv> binary64 (foldl (\<lambda>s x. binary64 (s + x)) 0
                (map (\<lambda>d. binary64 (real_of_int d / 86400000)) ds) / real (length ds))"
  shows "\<bar>a - m\<bar> \<le> ((1 + 1 / 2 ^ 53) ^ (length ds + 2) - 1) * m"
proof -
  define n where "n = length ds"
  define lo :: real where "lo = 1 - 1 / 2 ^ 53"
  define hi :: real where "hi = 1 + 1 / 2 ^ 53"
  define Y where "Y = sum_list (map (\<lambda>d. real_of_int d / 86400000) ds)"
  define xs where "xs = map (\<lambda>d. binary64 (real_of_int d / 86400000)) ds"
  define X where "X = sum_list xs"
  define s where "s = foldl (\<lambda>s x. binary64 (s + x)) 0 xs"
  define v where "v = s / real n"
  have n1: "1 \<le> n" using ne by (cases ds) (simp_all add: n_def)
  have rn: "1 \<le> real n" "real n \<le> 2 ^ 32"
    using n1 len by (simp_all add: n_def)
  have lo1: "0 < lo" "lo \<le> 1" by (simp_all add: lo_def)
  have hi1: "1 \<le> hi" by (simp add: hi_def)
  have n52: "n \<le> 2 ^ 52" "Suc n \<le> 2 ^ 52" "n \<le> 2 ^ 53" "Suc n \<le> 2 ^ 53"
    using len by (simp_all add: n_def)
  have lon: "1 / 2 \<le> lo ^ n" "1 / 2 \<le> lo ^ Suc n" "lo ^ n \<le> 1"
    using pow_1_minus_eps_ge_half [OF n52(1)] pow_1_minus_eps_ge_half [OF n52(2)] lo1
    by (simp_all add: lo_def power_le_one)
  have hin: "hi ^ n \<le> 3" "hi ^ Suc n \<le> 3" "1 \<le> hi ^ n"
    using pow_1_plus_eps_le_3 [OF n52(3)] pow_1_plus_eps_le_3 [OF n52(4)] hi1
    by (simp_all add: hi_def one_le_power)
  have el: "\<forall>d\<in>set ds. lo * (real_of_int d / 86400000) \<le> binary64 (real_of_int d / 86400000) \<and>
      binary64 (real_of_int d / 86400000) \<le> hi * (real_of_int d / 86400000) \<and>
      (binary64 (real_of_int d / 86400000) = 0 \<or>
       2 powi (- 1021) \<le> binary64 (real_of_int d / 86400000))"
    unfolding lo_def hi_def using rng duration_days_bounds by blast
  have Y0: "0 \<le> Y" unfolding Y_def using rng by (intro sum_list_nonneg) auto
  have XY: "lo * Y \<le> X" "X \<le> hi * Y"
  proof -
    have c: "sum_list (map (\<lambda>d. c * (real_of_int d / 86400000)) ds) = c * Y" for c
      unfolding Y_def by (rule sum_list_const_mult)
    have "sum_list (map (\<lambda>d. lo * (real_of_int d / 86400000)) ds) \<le> X"
      unfolding X_def xs_def using el by (intro sum_list_mono) simp
    then show "lo * Y \<le> X" unfolding c .
    have "X \<le> sum_list (map (\<lambda>d. hi * (real_of_int d / 86400000)) ds)"
      unfolding X_def xs_def using el by (intro sum_list_mono) simp
    then show "X \<le> hi * Y" unfolding c .
  qed
  have Yup: "Y \<le> 2 ^ 86"
  proof -
    have "Y \<le> sum_list (map (\<lambda>d. (2::real) ^ 54) ds)"
      unfolding Y_def
    proof (intro sum_list_mono)
      fix d assume "d \<in> set ds"
      with rng have "0 \<le> d" "d \<le> 2 ^ 54" by simp_all
      then have "real_of_int d \<le> 2 ^ 54" by (metis of_int_le_iff of_int_numeral of_int_power)
      moreover have "0 \<le> real_of_int d" using \<open>0 \<le> d\<close> by simp
      ultimately show "real_of_int d / 86400000 \<le> 2 ^ 54" by (simp add: field_simps)
    qed
    also have "\<dots> = real n * 2 ^ 54" by (simp add: sum_list_triv n_def)
    also have "\<dots> \<le> 2 ^ 32 * 2 ^ 54" using rn by (intro mult_right_mono) simp_all
    also have "\<dots> = (2::real) ^ 86" by (simp add: power_add [symmetric])
    finally show ?thesis .
  qed
  have Xup: "3 * X < 2 ^ 1024"
  proof -
    have "X \<le> 2 * Y" using XY(2) Y0 hi1 by (simp add: hi_def algebra_simps)
    with Yup have "3 * X \<le> 6 * 2 ^ 86" by simp
    also have "\<dots> \<le> (2::real) ^ 3 * 2 ^ 86" by simp
    also have "\<dots> = (2::real) ^ 89" by (simp add: power_add [symmetric])
    also have "\<dots> < (2::real) ^ 1024" by (rule power_strict_increasing) simp_all
    finally show ?thesis .
  qed
  have xel: "\<forall>x\<in>set xs. x = 0 \<or> 2 powi (- 1021) \<le> x"
    unfolding xs_def using el by auto
  have sb: "lo ^ n * X \<le> s \<and> s \<le> hi ^ n * X"
    unfolding lo_def hi_def s_def X_def
    using double_sum_bounds [OF xel _ Xup [unfolded X_def]] n52(1)
    by (simp add: n_def xs_def)
  have X0: "0 \<le> X"
  proof -
    have "0 \<le> lo * Y" using Y0 lo1 by simp
    with XY(1) show ?thesis by linarith
  qed
  have s0: "0 \<le> s"
  proof -
    have "0 \<le> lo ^ n * X" using X0 lo1 by simp
    with sb show ?thesis by linarith
  qed
  have sY: "lo ^ Suc n * Y \<le> s" "s \<le> hi ^ Suc n * Y"
  proof -
    have "lo ^ n * (lo * Y) \<le> lo ^ n * X" using XY(1) lo1 by (intro mult_left_mono) simp_all
    with sb show "lo ^ Suc n * Y \<le> s" by (simp add: mult.assoc mult.left_commute)
    have "hi ^ n * X \<le> hi ^ n * (hi * Y)" using XY(2) hi1 by (intro mult_left_mono) simp_all
    with sb show "s \<le> hi ^ Suc n * Y" by (simp add: mult.assoc mult.left_commute)
  qed
  have mY: "m = Y / real n" by (simp add: m_def Y_def n_def)
  have m0: "0 \<le> m" using Y0 rn by (simp add: mY)
  have vm: "lo ^ Suc n * m \<le> v" "v \<le> hi ^ Suc n * m"
    using sY rn by (simp_all add: v_def mY divide_right_mono)
  have v0: "0 \<le> v" using s0 rn by (simp add: v_def)
  have vrange: "v = 0 \<or> (2 powi (- 1022) \<le> v \<and> v < 2 ^ 1024)"
  proof (cases "v = 0")
    case True
    then show ?thesis by simp
  next
    case False
    with v0 have "0 < v" by simp
    have "0 < Y"
    proof (rule ccontr)
      assume "\<not> 0 < Y"
      with Y0 have "Y = 0" by simp
      with vm(2) have "v \<le> 0" by (simp add: mY)
      with \<open>0 < v\<close> show False by simp
    qed
    have "0 < sum_list ds"
    proof (rule ccontr)
      assume "\<not> 0 < sum_list ds"
      moreover have "0 \<le> sum_list ds" using rng by (intro sum_list_nonneg) simp
      ultimately have z: "sum_list ds = 0" by simp
      have "Y = real_of_int (sum_list ds) / 86400000"
        unfolding Y_def by (induction ds) (simp_all add: add_divide_distrib)
      with z \<open>0 < Y\<close> show False by simp
    qed
    then have "1 \<le> real_of_int (sum_list ds)" by simp
    moreover have "Y = real_of_int (sum_list ds) / 86400000"
      unfolding Y_def by (induction ds) (simp_all add: add_divide_distrib)
    ultimately have Y1: "1 / 86400000 \<le> Y" by (simp add: divide_right_mono)
    have "(1::real) / 2 ^ 60 = (1 / 2) * ((1 / 2 ^ 27) / 2 ^ 32)" by simp
    also have "\<dots> \<le> (1 / 2) * (Y / real n)"
    proof (intro mult_left_mono)
      have "(1::real) / 2 ^ 27 \<le> Y" using Y1 by simp
      then have "(1 / 2 ^ 27) / 2 ^ 32 \<le> Y / 2 ^ 32" by (simp add: divide_right_mono)
      also have "\<dots> \<le> Y / real n" using rn \<open>0 < Y\<close> by (intro divide_left_mono) simp_all
      finally show "(1 / 2 ^ 27) / 2 ^ 32 \<le> Y / real n" .
    qed simp
    also have "\<dots> \<le> lo ^ Suc n * m"
      unfolding mY using lon(2) Y0 rn by (intro mult_right_mono) simp_all
    also have "\<dots> \<le> v" by (rule vm)
    finally have "1 / 2 ^ 60 \<le> v" .
    with powi2_small(1) have a: "2 powi (- 1022) \<le> v" by linarith
    have "v \<le> s" using s0 rn by (simp add: v_def field_simps mult_le_cancel_left1)
    also have "\<dots> \<le> 3 * X"
    proof -
      have "hi ^ n * X \<le> 3 * X" using hin(1) X0 by (intro mult_right_mono) simp_all
      with sb show ?thesis by linarith
    qed
    also have "\<dots> < 2 ^ 1024" by (rule Xup)
    finally have "v < 2 ^ 1024" .
    with a show ?thesis by simp
  qed
  then have ab: "lo * v \<le> binary64 v \<and> binary64 v \<le> hi * v"
    unfolding lo_def hi_def by (rule binary64_nonneg_bounds)
  have av: "a = binary64 v"
    by (simp add: a_def v_def s_def xs_def n_def)
  have al: "lo ^ (n + 2) * m \<le> a"
  proof -
    have "lo * (lo ^ Suc n * m) \<le> lo * v" using vm(1) lo1 by (intro mult_left_mono) simp_all
    with ab show ?thesis by (simp add: av mult.assoc)
  qed
  have au: "a \<le> hi ^ (n + 2) * m"
  proof -
    have "hi * v \<le> hi * (hi ^ Suc n * m)" using vm(2) hi1 by (intro mult_left_mono) simp_all
    with ab show ?thesis by (simp add: av mult.assoc)
  qed
  have "2 \<le> lo ^ (n + 2) + hi ^ (n + 2)"
    unfolding lo_def hi_def by (rule pow_sum_ge_2)
  then have "(1 - lo ^ (n + 2)) * m \<le> (hi ^ (n + 2) - 1) * m"
    using m0 by (intro mult_right_mono) simp_all
  with al au have "\<bar>a - m\<bar> \<le> (hi ^ (n + 2) - 1) * m"
    by (simp add: abs_le_iff algebra_simps)
  then show ?thesis by (simp add: hi_def n_def)
qed

lemma roundHalfEven_int: "roundHalfEven (of_int k) = k"
  by (simp add: roundHalfEven_def)

lemma binary64_int:
  fixes d :: int
  assumes "0 \<le> d" and "d < 2 ^ 53"
  shows "binary64 (real_of_int d) = real_of_int d"
proof (cases "d = 0")
  case True
  then show ?thesis by (simp add: binary64_0)
next
  case False
  define x where "x = real_of_int d"
  define e where "e = exponent x"
  from False assms have "1 \<le> d" by simp
  then have x1: "1 \<le> x" by (simp add: x_def)
  have "real_of_int d < real_of_int (2 ^ 53)" using assms(2) by (simp only: of_int_less_iff)
  then have x2: "x < 2 ^ 53" by (simp add: x_def)
  also have "\<dots> < (2::real) ^ 1024" by (rule power_strict_increasing) simp_all
  finally have x3: "\<bar>x\<bar> < 2 ^ 1024" using x1 by simp
  have "(2::real) powi (- 1022) \<le> 2 powi 0" by (rule power_int_increasing) simp_all
  with x1 have x4: "2 powi (- 1022) \<le> \<bar>x\<bar>" by simp
  from exponent_bounds [OF x4 x3] x1 have eb: "2 powi e \<le> x" "x < 2 powi (e + 1)"
    by (simp_all add: e_def)
  have e52: "e \<le> 52"
  proof (rule ccontr)
    assume "\<not> e \<le> 52"
    then have "53 \<le> e" by simp
    then have "(2::real) powi 53 \<le> 2 powi e" by (rule power_int_increasing) simp
    with eb(1) x2 show False by simp
  qed
  define j where "j = nat (52 - e)"
  have u: "(2::real) powi (e - 52) = 1 / 2 ^ j"
  proof -
    have "e - 52 = - int j" using e52 by (simp add: j_def)
    then have "(2::real) powi (e - 52) = 2 powi (- int j)" by (rule arg_cong)
    also have "\<dots> = inverse (2 powi (int j))" by (rule power_int_minus)
    also have "\<dots> = 1 / 2 ^ j" by (simp add: inverse_eq_divide)
    finally show ?thesis .
  qed
  have q: "x / (1 / 2 ^ j) = real_of_int (d * 2 ^ j)"
    by (simp add: x_def)
  have nz: "x \<noteq> 0" using x1 by simp
  have "binary64 x = of_int (roundHalfEven (x / (2 powi (e - 52)))) * 2 powi (e - 52)"
    using nz by (simp add: binary64_def Let_def e_def)
  also have "\<dots> = real_of_int (d * 2 ^ j) * (1 / 2 ^ j)"
    unfolding u q roundHalfEven_int ..
  also have "\<dots> = x" by (simp add: x_def)
  finally show ?thesis by (simp add: x_def)
qed

lemma binary64_examples:
  "binary64 10 = 10" "binary64 5 = 5" "binary64 864000000 = 864000000"
  by code_simp+

lemma calculateAverageCompletionTime_eq:
  "calculateAverageCompletionTime tasks =
     (if withBothDates tasks = [] then 0
      else round (binary64
        (foldl (\<lambda>s x. binary64 (s + x)) 0
           (map (\<lambda>t. binary64 (binary64 (real_of_int (durationMs t)) / 86400000))
              (withBothDates tasks))
         / real (length (withBothDates tasks)))))"
  by (simp add: calculateAverageCompletionTime_def withBothDates_def durationMs_def Let_def
      foldl_map)

lemma average_example:
  "dateInitiated a = Some t0 \<and> dateCompleted a = Some (t0 + 10 * 86400000) \<and>
    dateInitiated b = Some t1 \<and> dateCompleted b = Some t1
      \<longrightarrow> calculateAverageCompletionTime [a, b] = 5"
  by (simp add: calculateAverageCompletionTime_eq withBothDates_def durationMs_def
      binary64_examples binary64_0)

section \<open>Further facts\<close>

lemma map_throwing_rowTask:
  "map_throwing (tableRow options) ts = Inr rows \<Longrightarrow> map rowTask rows = ts"
proof (induction ts arbitrary: rows)
  case Nil
  then show ?case by simp
next
  case (Cons t ts)
  then show ?case
    by (auto simp: tableRow_def split: sum.splits if_splits)
qed

lemma status_counts_sum:
  "length (filter (\<lambda>t. status t = Completed) ts) +
   length (filter (\<lambda>t. status t = InProgress) ts) +
   length (filter (\<lambda>t. status t = NotInitiated) ts) = length (ts :: Task list)"
proof (induction ts)
  case Nil
  show ?case by simp
next
  case (Cons t ts)
  then show ?case by (cases "status t") simp_all
qed

lemma filter_if: "(if c then filter P xs else xs) = filter (\<lambda>t. c \<longrightarrow> P t) xs"
  by simp

lemma filter_case_option:
  "(case opt of None \<Rightarrow> xs | Some w \<Rightarrow> filter (P w) xs) = filter (\<lambda>t. \<forall>w. opt = Some w \<longrightarrow> P w t) xs"
  by (cases opt) simp_all

lemma applyFilters_eq:
  "applyFilters L U A q f tasks = filter (satisfiesConfigured L U A q f) tasks"
  unfolding applyFilters_def Let_def filter_if filter_case_option filter_filter
  apply (rule filter_cong [OF refl])
  apply (unfold satisfiesConfigured_def hasDocumentsTest_def hasPriceTest_def)
  apply (cases "fHasDocuments f"; cases "fHasPrice f"; cases "fRequiresMaterial f")
  apply (simp_all split: option.splits)
  done

lemma applyFilters_initial: "applyFilters L U A [] initialFilters tasks = tasks"
  by (simp add: applyFilters_def initialFilters_def)

lemma set_array_sort: "set (array_sort cmp xs) = set xs"
  using mset_array_sort [of cmp xs] by (metis set_mset_mset)

lemma map_throwing_rows:
  assumes "includePriceDetails options = Some True \<longrightarrow>
      (\<forall>t\<in>set ts. quotedPrice t \<noteq> Undefined \<and> confirmedPrice t \<noteq> Undefined)"
  shows "\<exists>rows. map_throwing (tableRow options) ts = Inr rows \<and> map rowTask rows = ts"
  using assms
proof (induction ts)
  case Nil
  show ?case by simp
next
  case (Cons t ts)
  then obtain rows where rows: "map_throwing (tableRow options) ts = Inr rows" "map rowTask rows = ts"
    by auto
  have "\<exists>row. tableRow options t = Inr row \<and> rowTask row = t"
  proof (cases "includePriceDetails options = Some True")
    case True
    with Cons.prems have "quotedPrice t \<noteq> Undefined" "confirmedPrice t \<noteq> Undefined" by simp_all
    then show ?thesis
      by (cases "quotedPrice t"; cases "confirmedPrice t") (simp_all add: tableRow_def True)
  next
    case False
    then show ?thesis by (simp add: tableRow_def)
  qed
  then obtain row where "tableRow options t = Inr row" "rowTask row = t" by blast
  with rows show ?case by simp
qed

text \<open>The calendar instance at a leap day: 29 February 2024, 00:00:00.005 UTC.\<close>

lemma utc_calendar_examples:
  "getDefaultDateRange utc Monthly 1709164800005 = (1706745600000, 1709251199999)"
  "getDefaultDateRange utc Quarterly 1709164800005 = (1704067200000, 1711929599999)"
  "getDefaultDateRange utc Yearly 1709164800005 = (1704067200000, 1735689599999)"
  "getDefaultDateRange utc Weekly 1709164800005 = (1708819200000, 1709423999999)"
  by code_simp+

section \<open>Sorting: price modes\<close>

text \<open>
  Claim C3, as amended. In the price-high mode the output is ordered by falling
  effective price and in the price-low mode by rising effective price. The effective
  price of an item is its confirmed price when that is present and not zero; otherwise
  its quoted price when that is present; otherwise 0. (A confirmed price of 0 is
  falsy in \<^verbatim>\<open>a.confirmedPrice || a.quotedPrice || 0\<close> and counts as absent.)
\<close>

theorem price_sort_by_effective_price:
  "sorted_wrt (\<lambda>a b. effectivePrice b \<le> effectivePrice a)
     (sortTasks localeCompare PriceHigh tasks) \<and>
   sorted_wrt (\<lambda>a b. effectivePrice a \<le> effectivePrice b)
     (sortTasks localeCompare PriceLow tasks) \<and>
   (\<forall>c. confirmedPrice t = Num c \<and> c \<noteq> 0 \<longrightarrow> effectivePrice t = c) \<and>
   (\<forall>q. \<not> (\<exists>c. confirmedPrice t = Num c \<and> c \<noteq> 0) \<and> quotedPrice t = Num q
        \<longrightarrow> effectivePrice t = q) \<and>
   (\<not> (\<exists>c. confirmedPrice t = Num c \<and> c \<noteq> 0) \<and> \<not> (\<exists>q. quotedPrice t = Num q)
        \<longrightarrow> effectivePrice t = 0)"
proof -
  have hi: "sorted_wrt (\<lambda>a b. effectivePrice b \<le> effectivePrice a)
      (sortTasks localeCompare PriceHigh tasks)"
    unfolding sortTasks_def
    using sorted_array_sort [of "compareTasks localeCompare PriceHigh" tasks]
    by (simp add: Let_def)
  have lo: "sorted_wrt (\<lambda>a b. effectivePrice a \<le> effectivePrice b)
      (sortTasks localeCompare PriceLow tasks)"
    unfolding sortTasks_def
    using sorted_array_sort [of "compareTasks localeCompare PriceLow" tasks]
    by (simp add: Let_def)
  have "(\<forall>c. confirmedPrice t = Num c \<and> c \<noteq> 0 \<longrightarrow> effectivePrice t = c) \<and>
   (\<forall>q. \<not> (\<exists>c. confirmedPrice t = Num c \<and> c \<noteq> 0) \<and> quotedPrice t = Num q
        \<longrightarrow> effectivePrice t = q) \<and>
   (\<not> (\<exists>c. confirmedPrice t = Num c \<and> c \<noteq> 0) \<and> \<not> (\<exists>q. quotedPrice t = Num q)
        \<longrightarrow> effectivePrice t = 0)"
    by (auto simp: effectivePrice_cases split: price.splits)
  with hi lo show ?thesis by blast
qed

text \<open>
  The specification's example: quoted 100, quoted 50 with confirmed 80, and no price
  sort as 100, 80, 0 in the price-high mode.
\<close>

theorem price_sort_by_effective_price_witness:
  "confirmedPrice (blankTask\<lparr>taskId := ''b'', quotedPrice := Num 50, confirmedPrice := Num 80\<rparr>)
     = Num 80 \<and> (80::real) \<noteq> 0 \<and>
   effectivePrice (blankTask\<lparr>taskId := ''b'', quotedPrice := Num 50, confirmedPrice := Num 80\<rparr>)
     = 80 \<and>
   sorted_wrt (\<lambda>a b. effectivePrice b \<le> effectivePrice a)
     (sortTasks codeUnitCompare PriceHigh
       [blankTask\<lparr>taskId := ''c''\<rparr>,
        blankTask\<lparr>taskId := ''b'', quotedPrice := Num 50, confirmedPrice := Num 80\<rparr>,
        blankTask\<lparr>taskId := ''a'', quotedPrice := Num 100\<rparr>]) \<and>
   sortTasks codeUnitCompare PriceHigh
       [blankTask\<lparr>taskId := ''c''\<rparr>,
        blankTask\<lparr>taskId := ''b'', quotedPrice := Num 50, confirmedPrice := Num 80\<rparr>,
        blankTask\<lparr>taskId := ''a'', quotedPrice := Num 100\<rparr>]
     = [blankTask\<lparr>taskId := ''a'', quotedPrice := Num 100\<rparr>,
        blankTask\<lparr>taskId := ''b'', quotedPrice := Num 50, confirmedPrice := Num 80\<rparr>,
        blankTask\<lparr>taskId := ''c''\<rparr>]"
proof -
  note th = price_sort_by_effective_price [of codeUnitCompare
      "[blankTask\<lparr>taskId := ''c''\<rparr>,
        blankTask\<lparr>taskId := ''b'', quotedPrice := Num 50, confirmedPrice := Num 80\<rparr>,
        blankTask\<lparr>taskId := ''a'', quotedPrice := Num 100\<rparr>]"
      "blankTask\<lparr>taskId := ''b'', quotedPrice := Num 50, confirmedPrice := Num 80\<rparr>"]
  have c: "confirmedPrice (blankTask\<lparr>taskId := ''b'', quotedPrice := Num 50,
      confirmedPrice := Num 80\<rparr>) = Num 80"
    by simp
  from th c have e: "effectivePrice (blankTask\<lparr>taskId := ''b'', quotedPrice := Num 50,
      confirmedPrice := Num 80\<rparr>) = 80"
    by simp
  from th have s: "sorted_wrt (\<lambda>a b. effectivePrice b \<le> effectivePrice a)
     (sortTasks codeUnitCompare PriceHigh
       [blankTask\<lparr>taskId := ''c''\<rparr>,
        blankTask\<lparr>taskId := ''b'', quotedPrice := Num 50, confirmedPrice := Num 80\<rparr>,
        blankTask\<lparr>taskId := ''a'', quotedPrice := Num 100\<rparr>])"
    by (rule conjunct1)
  have r: "sortTasks codeUnitCompare PriceHigh
       [blankTask\<lparr>taskId := ''c''\<rparr>,
        blankTask\<lparr>taskId := ''b'', quotedPrice := Num 50, confirmedPrice := Num 80\<rparr>,
        blankTask\<lparr>taskId := ''a'', quotedPrice := Num 100\<rparr>]
     = [blankTask\<lparr>taskId := ''a'', quotedPrice := Num 100\<rparr>,
        blankTask\<lparr>taskId := ''b'', quotedPrice := Num 50, confirmedPrice := Num 80\<rparr>,
        blankTask\<lparr>taskId := ''c''\<rparr>]"
    by (simp add: sortTasks_def effectivePrice_def js_or_def blankTask_def)
  from c e s r show ?thesis by simp
qed

text \<open>
  Claim C3 as stated fails: an item whose confirmed price is present with the value 0
  and whose quoted price is 100 has effective price 100, and the price-high mode puts
  it in front of an item confirmed at 50.
\<close>

theorem price_zero_counterexample:
  "confirmedPrice (blankTask\<lparr>taskId := ''a'', quotedPrice := Num 100, confirmedPrice := Num 0\<rparr>)
     = Num 0 \<and>
   effectivePrice (blankTask\<lparr>taskId := ''a'', quotedPrice := Num 100, confirmedPrice := Num 0\<rparr>)
     = 100 \<and>
   sortTasks codeUnitCompare PriceHigh
     [blankTask\<lparr>taskId := ''b'', confirmedPrice := Num 50\<rparr>,
      blankTask\<lparr>taskId := ''a'', quotedPrice := Num 100, confirmedPrice := Num 0\<rparr>]
   = [blankTask\<lparr>taskId := ''a'', quotedPrice := Num 100, confirmedPrice := Num 0\<rparr>,
      blankTask\<lparr>taskId := ''b'', confirmedPrice := Num 50\<rparr>]"
  by (simp add: sortTasks_def effectivePrice_def js_or_def blankTask_def)

section \<open>Sorting: priority modes\<close>

text \<open>
  Claim C4. Priorities are ranked urgent 4, high 3, medium 2, low 1. In the output of
  the priority-high mode an item of strictly higher rank stands in front of every item
  of lower rank, whatever the creation times; and in both priority modes, of two items
  of equal rank the one created later stands in front of the other.
\<close>

theorem priority_sort_order:
  "PRIORITY_ORDER Urgent = 4 \<and> PRIORITY_ORDER High = 3 \<and>
   PRIORITY_ORDER Medium = 2 \<and> PRIORITY_ORDER Low = 1 \<and>
   (\<forall>i j. i < length (sortTasks localeCompare PriorityHigh tasks) \<and>
          j < length (sortTasks localeCompare PriorityHigh tasks) \<and>
          PRIORITY_ORDER (priority (sortTasks localeCompare PriorityHigh tasks ! j))
            < PRIORITY_ORDER (priority (sortTasks localeCompare PriorityHigh tasks ! i))
          \<longrightarrow> i < j) \<and>
   (\<forall>i j. i < length (sortTasks localeCompare PriorityHigh tasks) \<and>
          j < length (sortTasks localeCompare PriorityHigh tasks) \<and>
          PRIORITY_ORDER (priority (sortTasks localeCompare PriorityHigh tasks ! i))
            = PRIORITY_ORDER (priority (sortTasks localeCompare PriorityHigh tasks ! j)) \<and>
          createdAt (sortTasks localeCompare PriorityHigh tasks ! j)
            < createdAt (sortTasks localeCompare PriorityHigh tasks ! i)
          \<longrightarrow> i < j) \<and>
   (\<forall>i j. i < length (sortTasks localeCompare PriorityLow tasks) \<and>
          j < length (sortTasks localeCompare PriorityLow tasks) \<and>
          PRIORITY_ORDER (priority (sortTasks localeCompare PriorityLow tasks ! i))
            = PRIORITY_ORDER (priority (sortTasks localeCompare PriorityLow tasks ! j)) \<and>
          createdAt (sortTasks localeCompare PriorityLow tasks ! j)
            < createdAt (sortTasks localeCompare PriorityLow tasks ! i)
          \<longrightarrow> i < j)"
proof -
  define rank where "rank = (\<lambda>t::Task. PRIORITY_ORDER (priority t))"
  define hi where "hi = sortTasks localeCompare PriorityHigh tasks"
  define lo where "lo = sortTasks localeCompare PriorityLow tasks"
  have h: "sorted_wrt (\<lambda>a b. rank b \<le> rank a \<and> (rank a = rank b \<longrightarrow> createdAt b \<le> createdAt a)) hi"
    unfolding hi_def rank_def by (rule priority_high_sorted)
  have l: "sorted_wrt (\<lambda>a b. rank a \<le> rank b \<and> (rank a = rank b \<longrightarrow> createdAt b \<le> createdAt a)) lo"
    unfolding lo_def rank_def by (rule priority_low_sorted)
  have 1: "i < j" if "i < length hi" "j < length hi" "rank (hi ! j) < rank (hi ! i)" for i j
    using sorted_wrt_precedes [OF h that(1,2)] that(3) by auto
  have 2: "i < j" if "i < length hi" "j < length hi" "rank (hi ! i) = rank (hi ! j)"
      "createdAt (hi ! j) < createdAt (hi ! i)" for i j
    using sorted_wrt_precedes [OF h that(1,2)] that(3,4) by auto
  have 3: "i < j" if "i < length lo" "j < length lo" "rank (lo ! i) = rank (lo ! j)"
      "createdAt (lo ! j) < createdAt (lo ! i)" for i j
    using sorted_wrt_precedes [OF l that(1,2)] that(3,4) by auto
  have ranks: "PRIORITY_ORDER Urgent = 4 \<and> PRIORITY_ORDER High = 3 \<and>
     PRIORITY_ORDER Medium = 2 \<and> PRIORITY_ORDER Low = 1" by simp
  from ranks 1 2 3 show ?thesis
    unfolding rank_def hi_def lo_def by blast
qed

text \<open>
  A low item created at 9 and two urgent items created at 1 and 5: the urgent items
  come first, the later one in front.
\<close>

theorem priority_sort_order_witness:
  "sortTasks codeUnitCompare PriorityHigh
      [blankTask\<lparr>createdAt := 9, priority := Low\<rparr>,
       blankTask\<lparr>createdAt := 1, priority := Urgent\<rparr>,
       blankTask\<lparr>createdAt := 5, priority := Urgent\<rparr>]
     = [blankTask\<lparr>createdAt := 5, priority := Urgent\<rparr>,
        blankTask\<lparr>createdAt := 1, priority := Urgent\<rparr>,
        blankTask\<lparr>createdAt := 9, priority := Low\<rparr>] \<and>
   (0::nat) < 3 \<and> (2::nat) < 3 \<and>
   PRIORITY_ORDER (priority (blankTask\<lparr>createdAt := 9, priority := Low\<rparr>))
     < PRIORITY_ORDER (priority (blankTask\<lparr>createdAt := 5, priority := Urgent\<rparr>)) \<and>
   (0::nat) < 2"
proof -
  let ?ts = "[blankTask\<lparr>createdAt := 9, priority := Low\<rparr>,
       blankTask\<lparr>createdAt := 1, priority := Urgent\<rparr>,
       blankTask\<lparr>createdAt := 5, priority := Urgent\<rparr>]"
  have r: "sortTasks codeUnitCompare PriorityHigh ?ts
     = [blankTask\<lparr>createdAt := 5, priority := Urgent\<rparr>,
        blankTask\<lparr>createdAt := 1, priority := Urgent\<rparr>,
        blankTask\<lparr>createdAt := 9, priority := Low\<rparr>]"
    by (simp add: sortTasks_def blankTask_def)
  from priority_sort_order [of codeUnitCompare ?ts]
  have "\<forall>i j. i < length (sortTasks codeUnitCompare PriorityHigh ?ts) \<and>
          j < length (sortTasks codeUnitCompare PriorityHigh ?ts) \<and>
          PRIORITY_ORDER (priority (sortTasks codeUnitCompare PriorityHigh ?ts ! j))
            < PRIORITY_ORDER (priority (sortTasks codeUnitCompare PriorityHigh ?ts ! i))
          \<longrightarrow> i < j"
    by blast
  then have "(0::nat) < length (sortTasks codeUnitCompare PriorityHigh ?ts) \<and>
          2 < length (sortTasks codeUnitCompare PriorityHigh ?ts) \<and>
          PRIORITY_ORDER (priority (sortTasks codeUnitCompare PriorityHigh ?ts ! 2))
            < PRIORITY_ORDER (priority (sortTasks codeUnitCompare PriorityHigh ?ts ! 0))
          \<longrightarrow> (0::nat) < 2"
    by blast
  with r show ?thesis by simp
qed

section \<open>Sorting: permutation and idempotence\<close>

text \<open>
  Claim C7. In every sort mode the output is a permutation of the input, of the same
  length, and sorting the output again in the same mode leaves it as it is. (The two
  title modes rely on the platform's \<^verbatim>\<open>localeCompare\<close> being a consistent
  comparator, as ECMAScript requires of it.)
\<close>

theorem sort_permutation_idempotent:
  "mset (sortTasks localeCompare sortBy tasks) = mset tasks \<and>
   length (sortTasks localeCompare sortBy tasks) = length tasks \<and>
   ((sortBy = TitleAsc \<or> sortBy = TitleDesc \<longrightarrow> consistent localeCompare) \<longrightarrow>
      sortTasks localeCompare sortBy (sortTasks localeCompare sortBy tasks)
        = sortTasks localeCompare sortBy tasks)"
proof -
  have m: "mset (sortTasks localeCompare sortBy tasks) = mset tasks"
    by (simp add: sortTasks_def mset_array_sort)
  from m have "length (sortTasks localeCompare sortBy tasks) = length tasks"
    by (rule mset_eq_length)
  with m show ?thesis by (auto intro: sortTasks_idem)
qed

theorem sort_permutation_idempotent_witness:
  "consistent codeUnitCompare \<and>
   sortTasks codeUnitCompare TitleAsc
      [blankTask\<lparr>title := ''roof''\<rparr>, blankTask\<lparr>title := ''door''\<rparr>]
     = [blankTask\<lparr>title := ''door''\<rparr>, blankTask\<lparr>title := ''roof''\<rparr>] \<and>
   sortTasks codeUnitCompare TitleAsc
      (sortTasks codeUnitCompare TitleAsc
         [blankTask\<lparr>title := ''roof''\<rparr>, blankTask\<lparr>title := ''door''\<rparr>])
     = sortTasks codeUnitCompare TitleAsc
         [blankTask\<lparr>title := ''roof''\<rparr>, blankTask\<lparr>title := ''door''\<rparr>]"
proof -
  have r: "sortTasks codeUnitCompare TitleAsc
      [blankTask\<lparr>title := ''roof''\<rparr>, blankTask\<lparr>title := ''door''\<rparr>]
     = [blankTask\<lparr>title := ''door''\<rparr>, blankTask\<lparr>title := ''roof''\<rparr>]"
    by (simp add: sortTasks_def codeUnitCompare_def blankTask_def)
  from sort_permutation_idempotent [of codeUnitCompare TitleAsc
      "[blankTask\<lparr>title := ''roof''\<rparr>, blankTask\<lparr>title := ''door''\<rparr>]"]
    consistent_codeUnitCompare
  have "sortTasks codeUnitCompare TitleAsc
      (sortTasks codeUnitCompare TitleAsc
         [blankTask\<lparr>title := ''roof''\<rparr>, blankTask\<lparr>title := ''door''\<rparr>])
     = sortTasks codeUnitCompare TitleAsc
         [blankTask\<lparr>title := ''roof''\<rparr>, blankTask\<lparr>title := ''door''\<rparr>]"
    by blast
  with r consistent_codeUnitCompare show ?thesis by simp
qed

section \<open>The filter step\<close>

text \<open>
  Claim C1. The filter step keeps exactly the items that satisfy every configured
  predicate, in their input order: every item of the output is an item of the input
  and satisfies the predicate of each configured dimension (status, type, priority,
  user, material status, requires-material, has-documents, has-price, free text). A
  dimension whose set is empty is not configured and excludes nothing, and with no
  dimension configured the output is the input.
\<close>

theorem filter_step:
  "applyFilters toLowerCase userList isAdmin searchQuery filters tasks
     = filter (satisfiesConfigured toLowerCase userList isAdmin searchQuery filters) tasks \<and>
   (\<forall>task \<in> set (applyFilters toLowerCase userList isAdmin searchQuery filters tasks).
      task \<in> set tasks \<and>
      (searchQuery \<noteq> [] \<longrightarrow> matchesSearch toLowerCase userList isAdmin searchQuery task) \<and>
      (fStatus filters \<noteq> [] \<longrightarrow> status task \<in> set (fStatus filters)) \<and>
      (fTypes filters \<noteq> [] \<longrightarrow> wtype task \<in> set (fTypes filters)) \<and>
      (fPriorities filters \<noteq> [] \<longrightarrow> priority task \<in> set (fPriorities filters)) \<and>
      (fUsers filters \<noteq> [] \<longrightarrow> userId task \<in> set (fUsers filters)) \<and>
      (fMaterialStatus filters \<noteq> [] \<longrightarrow>
         (\<exists>m. materialStatus task = Some m \<and> m \<in> set (fMaterialStatus filters))) \<and>
      (\<forall>want. fRequiresMaterial filters = Some want \<longrightarrow> requiresMaterial task = want) \<and>
      (fHasDocuments filters = Some True \<longrightarrow> images task \<noteq> []) \<and>
      (fHasDocuments filters = Some False \<longrightarrow> images task = []) \<and>
      (fHasPrice filters = Some True \<longrightarrow>
         quotedPrice task \<noteq> Null \<or> confirmedPrice task \<noteq> Null) \<and>
      (fHasPrice filters = Some False \<longrightarrow>
         quotedPrice task = Null \<and> confirmedPrice task = Null)) \<and>
   applyFilters toLowerCase userList isAdmin [] initialFilters tasks = tasks \<and>
   (searchQuery = [] \<and> fStatus filters = [] \<and> fTypes filters = [] \<and> fPriorities filters = [] \<and>
    fUsers filters = [] \<and> fMaterialStatus filters = [] \<and> fRequiresMaterial filters = None \<and>
    fHasDocuments filters = None \<and> fHasPrice filters = None
      \<longrightarrow> applyFilters toLowerCase userList isAdmin searchQuery filters tasks = tasks)"
proof -
  have eq: "applyFilters toLowerCase userList isAdmin searchQuery filters tasks
     = filter (satisfiesConfigured toLowerCase userList isAdmin searchQuery filters) tasks"
    by (rule applyFilters_eq)
  have sound: "task \<in> set tasks \<and>
      satisfiesConfigured toLowerCase userList isAdmin searchQuery filters task"
    if "task \<in> set (applyFilters toLowerCase userList isAdmin searchQuery filters tasks)" for task
    using that unfolding eq by simp
  have ident: "applyFilters toLowerCase userList isAdmin [] initialFilters tasks = tasks"
    by (rule applyFilters_initial)
  have none: "searchQuery = [] \<and> fStatus filters = [] \<and> fTypes filters = [] \<and> fPriorities filters = [] \<and>
    fUsers filters = [] \<and> fMaterialStatus filters = [] \<and> fRequiresMaterial filters = None \<and>
    fHasDocuments filters = None \<and> fHasPrice filters = None
      \<longrightarrow> applyFilters toLowerCase userList isAdmin searchQuery filters tasks = tasks"
    by (simp add: applyFilters_def)
  from sound have sound': "\<forall>task \<in> set (applyFilters toLowerCase userList isAdmin searchQuery filters tasks).
      task \<in> set tasks \<and>
      (searchQuery \<noteq> [] \<longrightarrow> matchesSearch toLowerCase userList isAdmin searchQuery task) \<and>
      (fStatus filters \<noteq> [] \<longrightarrow> status task \<in> set (fStatus filters)) \<and>
      (fTypes filters \<noteq> [] \<longrightarrow> wtype task \<in> set (fTypes filters)) \<and>
      (fPriorities filters \<noteq> [] \<longrightarrow> priority task \<in> set (fPriorities filters)) \<and>
      (fUsers filters \<noteq> [] \<longrightarrow> userId task \<in> set (fUsers filters)) \<and>
      (fMaterialStatus filters \<noteq> [] \<longrightarrow>
         (\<exists>m. materialStatus task = Some m \<and> m \<in> set (fMaterialStatus filters))) \<and>
      (\<forall>want. fRequiresMaterial filters = Some want \<longrightarrow> requiresMaterial task = want) \<and>
      (fHasDocuments filters = Some True \<longrightarrow> images task \<noteq> []) \<and>
      (fHasDocuments filters = Some False \<longrightarrow> images task = []) \<and>
      (fHasPrice filters = Some True \<longrightarrow>
         quotedPrice task \<noteq> Null \<or> confirmedPrice task \<noteq> Null) \<and>
      (fHasPrice filters = Some False \<longrightarrow>
         quotedPrice task = Null \<and> confirmedPrice task = Null)"
    unfolding satisfiesConfigured_def by blast
  from eq sound' ident none show ?thesis by blast
qed

theorem filter_step_witness:
  "applyFilters asciiLower [] True ''ROOF''
       (initialFilters\<lparr>fStatus := [Completed], fHasPrice := Some True\<rparr>)
       [blankTask\<lparr>taskId := ''a'', title := ''Fix roof'', status := Completed, quotedPrice := Num 10\<rparr>,
        blankTask\<lparr>taskId := ''b'', title := ''Fix roof'', status := InProgress, quotedPrice := Num 10\<rparr>,
        blankTask\<lparr>taskId := ''c'', title := ''Fix door'', status := Completed, quotedPrice := Num 10\<rparr>,
        blankTask\<lparr>taskId := ''d'', title := ''Roofing'', status := Completed\<rparr>]
     = [blankTask\<lparr>taskId := ''a'', title := ''Fix roof'', status := Completed, quotedPrice := Num 10\<rparr>] \<and>
   status (blankTask\<lparr>taskId := ''a'', title := ''Fix roof'', status := Completed, quotedPrice := Num 10\<rparr>)
     \<in> set (fStatus (initialFilters\<lparr>fStatus := [Completed], fHasPrice := Some True\<rparr>)) \<and>
   matchesSearch asciiLower [] True ''ROOF''
     (blankTask\<lparr>taskId := ''a'', title := ''Fix roof'', status := Completed, quotedPrice := Num 10\<rparr>)"
proof -
  let ?f = "initialFilters\<lparr>fStatus := [Completed], fHasPrice := Some True\<rparr>"
  let ?a = "blankTask\<lparr>taskId := ''a'', title := ''Fix roof'', status := Completed, quotedPrice := Num 10\<rparr>"
  let ?ts = "[?a,
        blankTask\<lparr>taskId := ''b'', title := ''Fix roof'', status := InProgress, quotedPrice := Num 10\<rparr>,
        blankTask\<lparr>taskId := ''c'', title := ''Fix door'', status := Completed, quotedPrice := Num 10\<rparr>,
        blankTask\<lparr>taskId := ''d'', title := ''Roofing'', status := Completed\<rparr>]"
  have r: "applyFilters asciiLower [] True ''ROOF'' ?f ?ts = [?a]"
    by code_simp
  then have m: "?a \<in> set (applyFilters asciiLower [] True ''ROOF'' ?f ?ts)"
    by simp
  have q: "''ROOF'' \<noteq> []" by simp
  have s: "fStatus ?f \<noteq> []" by (simp add: initialFilters_def)
  from filter_step [of asciiLower "[]" True "''ROOF''" ?f ?ts] m q s
  have "status ?a \<in> set (fStatus ?f) \<and> matchesSearch asciiLower [] True ''ROOF'' ?a"
    by blast
  with r show ?thesis by simp
qed

section \<open>Average completion time\<close>

text \<open>
  Claim C8, as amended. The average completion time is taken over exactly the items that
  have both an initiation and a completion date, and is 0 when there is none. Otherwise
  it is the mean of their durations in days as double-precision arithmetic computes it
  (each duration, each duration in days, each partial sum and the final quotient rounded
  to the nearest double), rounded to the nearest whole number, half up. For durations
  that are not negative and below \<open>2 ^ 53\<close> milliseconds the result is therefore within
  half a day of the exact mean, up to a relative rounding error of the mean of at most
  \<open>(1 + 1 / 2 ^ 53) ^ (n + 2) - 1\<close> for \<open>n\<close> items.
  For one item completed ten days after its initiation and one completed at its
  initiation the result is 5.
\<close>

theorem average_completion_time:
  "(withBothDates tasks = [] \<longrightarrow> calculateAverageCompletionTime tasks = 0) \<and>
   (withBothDates tasks \<noteq> [] \<longrightarrow>
      calculateAverageCompletionTime tasks =
        round (binary64
          (foldl (\<lambda>s x. binary64 (s + x)) 0
             (map (\<lambda>t. binary64 (binary64 (real_of_int (durationMs t)) / 86400000))
              (withBothDates tasks))
           / real (length (withBothDates tasks))))) \<and>
   (withBothDates tasks \<noteq> [] \<and>
    (\<forall>t \<in> set (withBothDates tasks). 0 \<le> durationMs t \<and> durationMs t < 2 ^ 53) \<and>
    length (withBothDates tasks) \<le> 2 ^ 32 \<longrightarrow>
      \<bar>real_of_int (calculateAverageCompletionTime tasks) - exactMeanDays tasks\<bar>
        \<le> 1 / 2 + ((1 + 1 / 2 ^ 53) ^ (length (withBothDates tasks) + 2) - 1)
                    * exactMeanDays tasks) \<and>
   (dateInitiated a = Some t0 \<and> dateCompleted a = Some (t0 + 10 * 86400000) \<and>
    dateInitiated b = Some t1 \<and> dateCompleted b = Some t1
      \<longrightarrow> calculateAverageCompletionTime [a, b] = 5)"
proof -
  define cs where "cs = withBothDates tasks"
  define dm where "dm = binary64
          (foldl (\<lambda>s x. binary64 (s + x)) 0
             (map (\<lambda>t. binary64 (binary64 (real_of_int (durationMs t)) / 86400000)) cs)
           / real (length cs))"
  have eq: "calculateAverageCompletionTime tasks = (if cs = [] then 0 else round dm)"
    unfolding cs_def dm_def by (rule calculateAverageCompletionTime_eq)
  have 1: "cs = [] \<longrightarrow> calculateAverageCompletionTime tasks = 0"
    using eq by simp
  have 2: "cs \<noteq> [] \<longrightarrow> calculateAverageCompletionTime tasks = round dm"
    using eq by simp
  have 3: "\<bar>real_of_int (calculateAverageCompletionTime tasks) - exactMeanDays tasks\<bar>
        \<le> 1 / 2 + ((1 + 1 / 2 ^ 53) ^ (length cs + 2) - 1) * exactMeanDays tasks"
    if ne: "cs \<noteq> []" and rng: "\<forall>t \<in> set cs. 0 \<le> durationMs t \<and> durationMs t < 2 ^ 53"
      and len: "length cs \<le> 2 ^ 32"
  proof -
    define ds where "ds = map durationMs cs"
    have m: "exactMeanDays tasks
        = sum_list (map (\<lambda>d. real_of_int d / 86400000) ds) / real (length ds)"
      by (simp add: exactMeanDays_def ds_def cs_def comp_def)
    have me: "map (\<lambda>t. binary64 (binary64 (real_of_int (durationMs t)) / 86400000)) cs
        = map (\<lambda>t. binary64 (real_of_int (durationMs t) / 86400000)) cs"
      using rng by (intro map_cong refl) (simp add: binary64_int)
    have d: "dm = binary64 (foldl (\<lambda>s x. binary64 (s + x)) 0
                (map (\<lambda>d. binary64 (real_of_int d / 86400000)) ds) / real (length ds))"
      unfolding dm_def me by (simp add: ds_def comp_def)
    have rng54: "\<forall>d \<in> set ds. 0 \<le> d \<and> d \<le> 2 ^ 54"
      using rng by (auto simp add: ds_def)
    have lds: "length ds = length cs" by (simp add: ds_def)
    define E where "E = ((1 + 1 / 2 ^ 53) ^ (length cs + 2) - 1) * exactMeanDays tasks"
    have "\<bar>dm - exactMeanDays tasks\<bar>
        \<le> ((1 + 1 / 2 ^ 53) ^ (length ds + 2) - 1) * exactMeanDays tasks"
      unfolding m d using ne rng54 len by (intro double_mean_bounds) (simp_all add: ds_def)
    then have b1: "\<bar>dm - exactMeanDays tasks\<bar> \<le> E"
      unfolding lds E_def .
    have b2: "\<bar>real_of_int (round dm) - dm\<bar> \<le> 1 / 2"
      by (rule of_int_round_abs_le)
    have r: "calculateAverageCompletionTime tasks = round dm"
      using 2 ne by simp
    from b1 b2 have "\<bar>real_of_int (round dm) - exactMeanDays tasks\<bar> \<le> 1 / 2 + E"
      by linarith
    then show ?thesis unfolding r E_def .
  qed
  have 4: "dateInitiated a = Some t0 \<and> dateCompleted a = Some (t0 + 10 * 86400000) \<and>
    dateInitiated b = Some t1 \<and> dateCompleted b = Some t1
      \<longrightarrow> calculateAverageCompletionTime [a, b] = 5"
    by (rule average_example)
  from 1 2 3 4 show ?thesis
    unfolding cs_def dm_def by blast
qed

text \<open>
  The specification's example, with 1 and 11 January 2024 (UTC): the result is 5, which
  is the exact mean.
\<close>

theorem average_completion_time_witness:
  "withBothDates
     [blankTask\<lparr>dateInitiated := Some 1704067200000, dateCompleted := Some 1704931200000\<rparr>,
      blankTask\<lparr>dateInitiated := Some 1704067200000, dateCompleted := Some 1704067200000\<rparr>]
     \<noteq> [] \<and>
   durationMs (blankTask\<lparr>dateInitiated := Some 1704067200000,
                         dateCompleted := Some 1704931200000\<rparr>) = 864000000 \<and>
   durationMs (blankTask\<lparr>dateInitiated := Some 1704067200000,
                         dateCompleted := Some 1704067200000\<rparr>) = 0 \<and>
   calculateAverageCompletionTime
     [blankTask\<lparr>dateInitiated := Some 1704067200000, dateCompleted := Some 1704931200000\<rparr>,
      blankTask\<lparr>dateInitiated := Some 1704067200000, dateCompleted := Some 1704067200000\<rparr>]
     = 5 \<and>
   exactMeanDays
     [blankTask\<lparr>dateInitiated := Some 1704067200000, dateCompleted := Some 1704931200000\<rparr>,
      blankTask\<lparr>dateInitiated := Some 1704067200000, dateCompleted := Some 1704067200000\<rparr>]
     = 5 \<and>
   \<bar>real_of_int (calculateAverageCompletionTime
       [blankTask\<lparr>dateInitiated := Some 1704067200000, dateCompleted := Some 1704931200000\<rparr>,
        blankTask\<lparr>dateInitiated := Some 1704067200000, dateCompleted := Some 1704067200000\<rparr>])
      - exactMeanDays
       [blankTask\<lparr>dateInitiated := Some 1704067200000, dateCompleted := Some 1704931200000\<rparr>,
        blankTask\<lparr>dateInitiated := Some 1704067200000, dateCompleted := Some 1704067200000\<rparr>]\<bar>
     \<le> 1 / 2 + ((1 + 1 / 2 ^ 53)
          ^ (length (withBothDates
              [blankTask\<lparr>dateInitiated := Some 1704067200000,
                         dateCompleted := Some 1704931200000\<rparr>,
               blankTask\<lparr>dateInitiated := Some 1704067200000,
                         dateCompleted := Some 1704067200000\<rparr>]) + 2) - 1)
         * exactMeanDays
             [blankTask\<lparr>dateInitiated := Some 1704067200000,
                        dateCompleted := Some 1704931200000\<rparr>,
              blankTask\<lparr>dateInitiated := Some 1704067200000,
                        dateCompleted := Some 1704067200000\<rparr>]"
proof -
  let ?a = "blankTask\<lparr>dateInitiated := Some 1704067200000, dateCompleted := Some 1704931200000\<rparr>"
  let ?b = "blankTask\<lparr>dateInitiated := Some 1704067200000, dateCompleted := Some 1704067200000\<rparr>"
  note th = average_completion_time [of "[?a, ?b]" ?a 1704067200000 ?b 1704067200000]
  have w: "withBothDates [?a, ?b] = [?a, ?b]"
    by (simp add: withBothDates_def)
  have d: "durationMs ?a = 864000000" "durationMs ?b = 0"
    by (simp_all add: durationMs_def)
  have e: "exactMeanDays [?a, ?b] = 5"
    by (simp add: exactMeanDays_def w d)
  have h: "dateInitiated ?a = Some 1704067200000 \<and>
      dateCompleted ?a = Some (1704067200000 + 10 * 86400000) \<and>
      dateInitiated ?b = Some 1704067200000 \<and> dateCompleted ?b = Some 1704067200000"
    by simp
  from th h have c: "calculateAverageCompletionTime [?a, ?b] = 5" by blast
  have r: "withBothDates [?a, ?b] \<noteq> [] \<and>
    (\<forall>t \<in> set (withBothDates [?a, ?b]). 0 \<le> durationMs t \<and> durationMs t < 2 ^ 53) \<and>
    length (withBothDates [?a, ?b]) \<le> 2 ^ 32"
    unfolding w using d by simp
  from th r have b: "\<bar>real_of_int (calculateAverageCompletionTime [?a, ?b]) - exactMeanDays [?a, ?b]\<bar>
        \<le> 1 / 2 + ((1 + 1 / 2 ^ 53) ^ (length (withBothDates [?a, ?b]) + 2) - 1)
                    * exactMeanDays [?a, ?b]"
    by blast
  have ne: "withBothDates [?a, ?b] \<noteq> []" by (simp add: w)
  from ne d c e b show ?thesis by (intro conjI)
qed

text \<open>
  Claim C8 as stated fails: for durations of 2, 26 and 8 hours the exact mean is half a
  day, which rounds half up to 1, and the doubles add up to a mean just below one half,
  so that the result is 0.
\<close>

theorem average_completion_time_counterexample:
  "calculateAverageCompletionTime
     [blankTask\<lparr>dateInitiated := Some 0, dateCompleted := Some 7200000\<rparr>,
      blankTask\<lparr>dateInitiated := Some 0, dateCompleted := Some 93600000\<rparr>,
      blankTask\<lparr>dateInitiated := Some 0, dateCompleted := Some 28800000\<rparr>] = 0 \<and>
   round (((7200000 + 93600000 + 28800000) / 86400000) / 3 :: real) = 1"
  by code_simp

section \<open>Status counts\<close>

text \<open>
  Claim C9. For every collection, the counts of completed, in-progress and
  not-initiated items add up to the number of items, which is the total the aggregator
  reports: in the dashboard metrics, in the summary of a report over the items it is
  given, in the summary of the PDF report over its rows, and in the cells of the
  spreadsheet's summary sheet over its rows. On the empty collection every count is 0.
\<close>

theorem status_counts_sum_to_total:
  "completed (newMetrics tasks) + inProgress (newMetrics tasks) + notStarted (newMetrics tasks)
     = length tasks \<and>
   total (newMetrics tasks) = length tasks \<and>
   sumCompleted (reportSummary tasks) + sumInProgress (reportSummary tasks)
     + sumNotStarted (reportSummary tasks) = length tasks \<and>
   totalTasks (reportSummary tasks) = length tasks \<and>
   (\<forall>r. generatePDFReport D now tasks options = Inr r \<longrightarrow>
      pdfSummary r = reportSummary (map rowTask (pdfRows r)) \<and>
      sumCompleted (pdfSummary r) + sumInProgress (pdfSummary r) + sumNotStarted (pdfSummary r)
        = length (pdfRows r) \<and>
      totalTasks (pdfSummary r) = length (pdfRows r)) \<and>
   take 6 (drop 4 (summaryData (generateExcelReport D now tasks options)))
     = [[Str ''Total Tasks'', Cnt (totalTasks (reportSummary (xlsRows (generateExcelReport D now tasks options))))],
        [Str []],
        [Str ''Status Distribution''],
        [Str ''Completed'', Cnt (sumCompleted (reportSummary (xlsRows (generateExcelReport D now tasks options))))],
        [Str ''In Progress'', Cnt (sumInProgress (reportSummary (xlsRows (generateExcelReport D now tasks options))))],
        [Str ''Not Started'', Cnt (sumNotStarted (reportSummary (xlsRows (generateExcelReport D now tasks options))))]] \<and>
   newMetrics [] = \<lparr> total = 0, completed = 0, inProgress = 0, notStarted = 0,
     projects = 0, jobs = 0 \<rparr> \<and>
   totalTasks (reportSummary []) = 0 \<and> sumCompleted (reportSummary []) = 0 \<and>
   sumInProgress (reportSummary []) = 0 \<and> sumNotStarted (reportSummary []) = 0"
proof -
  have m: "completed (newMetrics tasks) + inProgress (newMetrics tasks) + notStarted (newMetrics tasks)
     = length tasks \<and> total (newMetrics tasks) = length tasks"
    by (simp add: newMetrics_def status_counts_sum)
  have s: "sumCompleted (reportSummary ts) + sumInProgress (reportSummary ts)
     + sumNotStarted (reportSummary ts) = length ts \<and> totalTasks (reportSummary ts) = length ts"
    for ts
    by (simp add: reportSummary_def status_counts_sum)
  have p: "pdfSummary r = reportSummary (map rowTask (pdfRows r)) \<and>
      sumCompleted (pdfSummary r) + sumInProgress (pdfSummary r) + sumNotStarted (pdfSummary r)
        = length (pdfRows r) \<and>
      totalTasks (pdfSummary r) = length (pdfRows r)"
    if "generatePDFReport D now tasks options = Inr r" for r
  proof -
    from that obtain rows where rows: "map_throwing (tableRow options) (reportTasks D now tasks options) = Inr rows"
      and r: "pdfRows r = rows" "pdfSummary r = reportSummary (reportTasks D now tasks options)"
      by (auto simp: generatePDFReport_def Let_def split: sum.splits)
    from rows have "map rowTask rows = reportTasks D now tasks options"
      by (rule map_throwing_rowTask)
    with r have e: "pdfSummary r = reportSummary (map rowTask (pdfRows r))" by simp
    from s [of "map rowTask (pdfRows r)"] e show ?thesis by simp
  qed
  have x: "take 6 (drop 4 (summaryData (generateExcelReport D now tasks options)))
     = [[Str ''Total Tasks'', Cnt (totalTasks (reportSummary (xlsRows (generateExcelReport D now tasks options))))],
        [Str []],
        [Str ''Status Distribution''],
        [Str ''Completed'', Cnt (sumCompleted (reportSummary (xlsRows (generateExcelReport D now tasks options))))],
        [Str ''In Progress'', Cnt (sumInProgress (reportSummary (xlsRows (generateExcelReport D now tasks options))))],
        [Str ''Not Started'', Cnt (sumNotStarted (reportSummary (xlsRows (generateExcelReport D now tasks options))))]]"
    by (simp add: generateExcelReport_def Let_def)
  have z: "newMetrics [] = \<lparr> total = 0, completed = 0, inProgress = 0, notStarted = 0,
     projects = 0, jobs = 0 \<rparr> \<and>
   totalTasks (reportSummary []) = 0 \<and> sumCompleted (reportSummary []) = 0 \<and>
   sumInProgress (reportSummary []) = 0 \<and> sumNotStarted (reportSummary []) = 0"
    by (simp add: newMetrics_def reportSummary_def)
  from m s [of tasks] p x z show ?thesis by blast
qed

text \<open>A daily report over one completed and one in-progress item created today.\<close>

theorem status_counts_sum_to_total_witness:
  "(case generatePDFReport utc 1704110400000
       [blankTask\<lparr>taskId := ''a'', status := Completed, createdAt := 1704100000000\<rparr>,
        blankTask\<lparr>taskId := ''b'', status := InProgress, createdAt := 1704100000001\<rparr>]
       \<lparr>period = Daily, startDate = None, endDate = None, includeCompleted = None,
        includeInProgress = None, includeNotStarted = None, includeProjects = None,
        includeJobs = None, includePriceDetails = None, selectedTasks = None\<rparr> of
      Inl e \<Rightarrow> False
    | Inr r \<Rightarrow>
        length (pdfRows r) = 2 \<and>
        sumCompleted (pdfSummary r) + sumInProgress (pdfSummary r) + sumNotStarted (pdfSummary r)
          = length (pdfRows r))"
proof -
  let ?ts = "[blankTask\<lparr>taskId := ''a'', status := Completed, createdAt := 1704100000000\<rparr>,
        blankTask\<lparr>taskId := ''b'', status := InProgress, createdAt := 1704100000001\<rparr>]"
  let ?o = "\<lparr>period = Daily, startDate = None, endDate = None, includeCompleted = None,
        includeInProgress = None, includeNotStarted = None, includeProjects = None,
        includeJobs = None, includePriceDetails = None, selectedTasks = None\<rparr>"
  have "\<exists>r. generatePDFReport utc 1704110400000 ?ts ?o = Inr r \<and> length (pdfRows r) = 2"
    by (simp add: generatePDFReport_def reportTasks_def reportDateRange_def tableRow_def
        utc_def msPerDay_def Let_def blankTask_def)
  then obtain r where g: "generatePDFReport utc 1704110400000 ?ts ?o = Inr r"
    and l: "length (pdfRows r) = 2"
    by blast
  from status_counts_sum_to_total [of ?ts utc 1704110400000 ?o] g
  have "sumCompleted (pdfSummary r) + sumInProgress (pdfSummary r) + sumNotStarted (pdfSummary r)
          = length (pdfRows r)"
    by blast
  with g l show ?thesis by simp
qed

section \<open>The cap on attached documents\<close>

text \<open>
  Claim C10. When files are selected and their number exceeds 50 minus the number of
  existing plus pending attachments, the editor raises an error and adds nothing;
  otherwise it appends every selected file to the pending attachments. A total of at
  most 50 therefore stays at most 50.
\<close>

theorem attachment_cap:
  "(files \<noteq> [] \<and>
    50 - int (length (taskImages st) + length (existingImages st)) < int (length files)
      \<longrightarrow> handleFileChange createObjectURL files st
            = (Some (CanOnlyAddMore (50 - int (length (taskImages st) + length (existingImages st)))), st)) \<and>
   (\<not> 50 - int (length (taskImages st) + length (existingImages st)) < int (length files)
      \<longrightarrow> fst (handleFileChange createObjectURL files st) = None \<and>
          map imgFile (taskImages (snd (handleFileChange createObjectURL files st)))
            = map imgFile (taskImages st) @ files \<and>
          existingImages (snd (handleFileChange createObjectURL files st)) = existingImages st) \<and>
   (length (taskImages st) + length (existingImages st) \<le> 50
      \<longrightarrow> length (taskImages (snd (handleFileChange createObjectURL files st)))
          + length (existingImages (snd (handleFileChange createObjectURL files st))) \<le> 50)"
  by (auto simp: handleFileChange_def Let_def comp_def)

theorem attachment_cap_witness:
  "[''c.pdf'', ''d.pdf''] \<noteq> ([] :: string list) \<and>
   50 - int (length (taskImages \<lparr>taskImages = [], existingImages = replicate 49 ''u''\<rparr>)
        + length (existingImages \<lparr>taskImages = [], existingImages = replicate 49 ''u''\<rparr>))
     < int (length [''c.pdf'', ''d.pdf'']) \<and>
   handleFileChange (\<lambda>f. ''blob:'' @ f) [''c.pdf'', ''d.pdf'']
       \<lparr>taskImages = [], existingImages = replicate 49 ''u''\<rparr>
     = (Some (CanOnlyAddMore 1), \<lparr>taskImages = [], existingImages = replicate 49 ''u''\<rparr>) \<and>
   handleFileChange (\<lambda>f. ''blob:'' @ f) [''c.pdf'']
       \<lparr>taskImages = [], existingImages = replicate 49 ''u''\<rparr>
     = (None, \<lparr>taskImages = [\<lparr>imgFile = ''c.pdf'', preview = ''blob:c.pdf''\<rparr>],
               existingImages = replicate 49 ''u''\<rparr>)"
proof -
  let ?st = "\<lparr>taskImages = [], existingImages = replicate 49 ''u''\<rparr>"
  have h: "[''c.pdf'', ''d.pdf''] \<noteq> ([] :: string list) \<and>
     50 - int (length (taskImages ?st) + length (existingImages ?st))
       < int (length [''c.pdf'', ''d.pdf''])"
    by simp
  from attachment_cap [of "[''c.pdf'', ''d.pdf'']" ?st "\<lambda>f. ''blob:'' @ f"] h
  have r: "handleFileChange (\<lambda>f. ''blob:'' @ f) [''c.pdf'', ''d.pdf''] ?st
     = (Some (CanOnlyAddMore (50 - int (length (taskImages ?st) + length (existingImages ?st)))), ?st)"
    by blast
  have a: "handleFileChange (\<lambda>f. ''blob:'' @ f) [''c.pdf''] ?st
     = (None, \<lparr>taskImages = [\<lparr>imgFile = ''c.pdf'', preview = ''blob:c.pdf''\<rparr>],
               existingImages = replicate 49 ''u''\<rparr>)"
    by (simp add: handleFileChange_def)
  from h r a show ?thesis by simp
qed

section \<open>Selection mode of the report renderers\<close>

text \<open>
  Claim C2, as amended. Whenever a selection list is supplied, both renderers render
  exactly the items of the input whose id is in the list, newest first, whatever the
  status flags, the type flags and the date range of the same options; and the PDF
  report is titled "Custom Data Report" and prints no period line. The PDF renderer
  does so whenever it returns a document, which it does unless price details are asked
  for and a selected item has an undefined price field.
\<close>

theorem selection_mode_reports:
  "selectedTasks options = Some sel \<longrightarrow>
     xlsRows (generateExcelReport D now tasks options)
       = array_sort (\<lambda>a b. real_of_int (createdAt b - createdAt a))
           (filter (\<lambda>task. taskId task \<in> set sel) tasks) \<and>
     set (xlsRows (generateExcelReport D now tasks options))
       = {task \<in> set tasks. taskId task \<in> set sel} \<and>
     ((includePriceDetails options = Some True \<longrightarrow>
         (\<forall>task \<in> set tasks. taskId task \<in> set sel \<longrightarrow>
            quotedPrice task \<noteq> Undefined \<and> confirmedPrice task \<noteq> Undefined)) \<longrightarrow>
      (\<exists>r. generatePDFReport D now tasks options = Inr r \<and>
           map rowTask (pdfRows r)
             = array_sort (\<lambda>a b. real_of_int (createdAt b - createdAt a))
                 (filter (\<lambda>task. taskId task \<in> set sel) tasks) \<and>
           set (map rowTask (pdfRows r)) = {task \<in> set tasks. taskId task \<in> set sel} \<and>
           pdfTitle r = ''Custom Data Report'' \<and>
           pdfPeriodLine r = None))"
proof (intro impI conjI)
  assume sel: "selectedTasks options = Some sel"
  define ys where "ys = array_sort (\<lambda>a b. real_of_int (createdAt b - createdAt a))
           (filter (\<lambda>task. taskId task \<in> set sel) tasks)"
  have rt: "reportTasks D now tasks options = ys"
    by (simp add: reportTasks_def sel Let_def ys_def)
  have st: "set ys = {task \<in> set tasks. taskId task \<in> set sel}"
    by (simp add: set_array_sort ys_def)
  have x: "xlsRows (generateExcelReport D now tasks options) = ys"
    by (simp add: generateExcelReport_def Let_def rt)
  from x show "xlsRows (generateExcelReport D now tasks options)
       = array_sort (\<lambda>a b. real_of_int (createdAt b - createdAt a))
           (filter (\<lambda>task. taskId task \<in> set sel) tasks)"
    unfolding ys_def .
  from x st show "set (xlsRows (generateExcelReport D now tasks options))
       = {task \<in> set tasks. taskId task \<in> set sel}"
    by simp
  assume ok: "includePriceDetails options = Some True \<longrightarrow>
         (\<forall>task \<in> set tasks. taskId task \<in> set sel \<longrightarrow>
            quotedPrice task \<noteq> Undefined \<and> confirmedPrice task \<noteq> Undefined)"
  then have "includePriceDetails options = Some True \<longrightarrow>
      (\<forall>t\<in>set ys. quotedPrice t \<noteq> Undefined \<and> confirmedPrice t \<noteq> Undefined)"
    unfolding st by blast
  then obtain rows where rows: "map_throwing (tableRow options) ys = Inr rows"
      "map rowTask rows = ys"
    using map_throwing_rows by blast
  define r where "r = \<lparr> pdfTitle = ''Custom Data Report'', pdfGeneratedOn = now,
      pdfPeriodLine = None, pdfRows = rows, pdfSummary = reportSummary ys,
      pdfPriceSummary = (if includePriceDetails options = Some True
                         then Some (totalQuoted ys, totalConfirmed ys) else None) \<rparr>"
  have g: "generatePDFReport D now tasks options = Inr r"
    unfolding generatePDFReport_def Let_def rt rows r_def by (simp add: sel)
  have m: "map rowTask (pdfRows r) = ys" by (simp add: r_def rows)
  have t: "pdfTitle r = ''Custom Data Report''" "pdfPeriodLine r = None"
    by (simp_all add: r_def)
  show "\<exists>r. generatePDFReport D now tasks options = Inr r \<and>
           map rowTask (pdfRows r)
             = array_sort (\<lambda>a b. real_of_int (createdAt b - createdAt a))
                 (filter (\<lambda>task. taskId task \<in> set sel) tasks) \<and>
           set (map rowTask (pdfRows r)) = {task \<in> set tasks. taskId task \<in> set sel} \<and>
           pdfTitle r = ''Custom Data Report'' \<and>
           pdfPeriodLine r = None"
  proof (intro exI conjI)
    show "generatePDFReport D now tasks options = Inr r" by (rule g)
    show "map rowTask (pdfRows r)
             = array_sort (\<lambda>a b. real_of_int (createdAt b - createdAt a))
                 (filter (\<lambda>task. taskId task \<in> set sel) tasks)"
      using m unfolding ys_def .
    show "set (map rowTask (pdfRows r)) = {task \<in> set tasks. taskId task \<in> set sel}"
      unfolding m by (rule st)
    show "pdfTitle r = ''Custom Data Report''" by (rule t)
    show "pdfPeriodLine r = None" by (rule t)
  qed
qed

text \<open>
  A completed item created outside the given date range is rendered when it is
  selected, although the options exclude completed items.
\<close>

theorem selection_mode_reports_witness:
  "selectedTasks \<lparr>period = Weekly, startDate = Some 1703980800000, endDate = Some 1704153599999,
      includeCompleted = Some False, includeInProgress = Some True, includeNotStarted = Some True,
      includeProjects = Some True, includeJobs = Some False, includePriceDetails = None,
      selectedTasks = Some [''a'']\<rparr> = Some [''a''] \<and>
   xlsRows (generateExcelReport utc 1704110400000
      [blankTask\<lparr>taskId := ''b'', createdAt := 1704000000000\<rparr>,
       blankTask\<lparr>taskId := ''a'', status := Completed, createdAt := 5\<rparr>]
      \<lparr>period = Weekly, startDate = Some 1703980800000, endDate = Some 1704153599999,
       includeCompleted = Some False, includeInProgress = Some True, includeNotStarted = Some True,
       includeProjects = Some True, includeJobs = Some False, includePriceDetails = None,
       selectedTasks = Some [''a'']\<rparr>)
     = [blankTask\<lparr>taskId := ''a'', status := Completed, createdAt := 5\<rparr>] \<and>
   map_sum id (\<lambda>r. (pdfTitle r, pdfPeriodLine r, map rowTask (pdfRows r)))
     (generatePDFReport utc 1704110400000
      [blankTask\<lparr>taskId := ''b'', createdAt := 1704000000000\<rparr>,
       blankTask\<lparr>taskId := ''a'', status := Completed, createdAt := 5\<rparr>]
      \<lparr>period = Weekly, startDate = Some 1703980800000, endDate = Some 1704153599999,
       includeCompleted = Some False, includeInProgress = Some True, includeNotStarted = Some True,
       includeProjects = Some True, includeJobs = Some False, includePriceDetails = None,
       selectedTasks = Some [''a'']\<rparr>)
     = Inr (''Custom Data Report'', None,
            [blankTask\<lparr>taskId := ''a'', status := Completed, createdAt := 5\<rparr>])"
proof -
  let ?o = "\<lparr>period = Weekly, startDate = Some 1703980800000, endDate = Some 1704153599999,
      includeCompleted = Some False, includeInProgress = Some True, includeNotStarted = Some True,
      includeProjects = Some True, includeJobs = Some False, includePriceDetails = None,
      selectedTasks = Some [''a'']\<rparr>"
  let ?ts = "[blankTask\<lparr>taskId := ''b'', createdAt := 1704000000000\<rparr>,
       blankTask\<lparr>taskId := ''a'', status := Completed, createdAt := 5\<rparr>]"
  let ?ys = "array_sort (\<lambda>a b. real_of_int (createdAt b - createdAt a))
           (filter (\<lambda>task. taskId task \<in> set [''a'']) ?ts)"
  have h: "selectedTasks ?o = Some [''a'']" by simp
  have p: "includePriceDetails ?o = Some True \<longrightarrow>
         (\<forall>task \<in> set ?ts. taskId task \<in> set [''a''] \<longrightarrow>
            quotedPrice task \<noteq> Undefined \<and> confirmedPrice task \<noteq> Undefined)"
    by simp
  have ys: "?ys = [blankTask\<lparr>taskId := ''a'', status := Completed, createdAt := 5\<rparr>]"
    by (simp add: blankTask_def)
  from selection_mode_reports [of ?o "[''a'']" utc 1704110400000 ?ts] h p
  obtain r where "xlsRows (generateExcelReport utc 1704110400000 ?ts ?o) = ?ys"
    and "generatePDFReport utc 1704110400000 ?ts ?o = Inr r"
    and "map rowTask (pdfRows r) = ?ys"
    and "pdfTitle r = ''Custom Data Report''" and "pdfPeriodLine r = None"
    by blast
  with h show ?thesis by (simp add: ys)
qed

text \<open>
  Claim C2 as stated fails. The spreadsheet renderer, called as the dialog calls it in
  selection mode at noon of 1 January 2024 (UTC), writes the period row of the current
  day on its summary sheet and no cell that reads "Custom Data Report", while the one
  rendered item was created outside that day. The PDF renderer, asked for price
  details, renders nothing for a selected item whose quoted price is undefined.
\<close>

theorem selection_mode_counterexample:
  "selectedTasks \<lparr>period = Daily, startDate = None, endDate = None, includeCompleted = Some True,
      includeInProgress = Some True, includeNotStarted = Some True, includeProjects = Some True,
      includeJobs = Some True, includePriceDetails = Some False, selectedTasks = Some [''a'']\<rparr>
     = Some [''a''] \<and>
   xlsRows (generateExcelReport utc 1704110400000 [blankTask\<lparr>taskId := ''a'', createdAt := 5\<rparr>]
     \<lparr>period = Daily, startDate = None, endDate = None, includeCompleted = Some True,
      includeInProgress = Some True, includeNotStarted = Some True, includeProjects = Some True,
      includeJobs = Some True, includePriceDetails = Some False, selectedTasks = Some [''a'']\<rparr>)
     = [blankTask\<lparr>taskId := ''a'', createdAt := 5\<rparr>] \<and>
   summaryData (generateExcelReport utc 1704110400000 [blankTask\<lparr>taskId := ''a'', createdAt := 5\<rparr>]
     \<lparr>period = Daily, startDate = None, endDate = None, includeCompleted = Some True,
      includeInProgress = Some True, includeNotStarted = Some True, includeProjects = Some True,
      includeJobs = Some True, includePriceDetails = Some False, selectedTasks = Some [''a'']\<rparr>) ! 2
     = [Str ''Period'', RangePPP 1704067200000 1704153599999] \<and>
   Str ''Custom Data Report'' \<notin> set (concat (summaryData
     (generateExcelReport utc 1704110400000 [blankTask\<lparr>taskId := ''a'', createdAt := 5\<rparr>]
     \<lparr>period = Daily, startDate = None, endDate = None, includeCompleted = Some True,
      includeInProgress = Some True, includeNotStarted = Some True, includeProjects = Some True,
      includeJobs = Some True, includePriceDetails = Some False, selectedTasks = Some [''a'']\<rparr>))) \<and>
   sheetNames (generateExcelReport utc 1704110400000 [blankTask\<lparr>taskId := ''a'', createdAt := 5\<rparr>]
     \<lparr>period = Daily, startDate = None, endDate = None, includeCompleted = Some True,
      includeInProgress = Some True, includeNotStarted = Some True, includeProjects = Some True,
      includeJobs = Some True, includePriceDetails = Some False, selectedTasks = Some [''a'']\<rparr>)
     = [''Tasks'', ''Summary''] \<and>
   generatePDFReport utc 1704110400000
     [blankTask\<lparr>taskId := ''a'', quotedPrice := Undefined\<rparr>]
     \<lparr>period = Daily, startDate = None, endDate = None, includeCompleted = Some True,
      includeInProgress = Some True, includeNotStarted = Some True, includeProjects = Some True,
      includeJobs = Some True, includePriceDetails = Some True, selectedTasks = Some [''a'']\<rparr>
     = Inl TypeError"
  by (simp add: generateExcelReport_def generatePDFReport_def reportTasks_def
      reportDateRange_def reportSummary_def tableRow_def utc_def msPerDay_def Let_def
      blankTask_def)

section \<open>Named periods in the report dialog\<close>

text \<open>
  Claim C5, as amended. When a date that the dialog accepts is selected for a weekly,
  monthly, quarterly or yearly period and the calendar end of that period falls after
  the end of the current day, the stored end is exactly the end of the current day,
  \<^verbatim>\<open>endOfDay(new Date())\<close>; otherwise the stored end is the calendar end.
\<close>

theorem named_period_end_clamped:
  "(dlgPeriod st = Named p \<and> p \<noteq> Daily \<and> \<not> endOfDay D now < d \<and>
    endOfDay D now < snd (getDefaultDateRange D p d)
      \<longrightarrow> handleDateSelect D now (Some d) st =
            (None, st\<lparr>selectedDate := Some d,
                       dlgStartDate := Some (fst (getDefaultDateRange D p d)),
                       dlgEndDate := Some (endOfDay D now)\<rparr>)) \<and>
   (dlgPeriod st = Named p \<and> p \<noteq> Daily \<and> \<not> endOfDay D now < d \<and>
    \<not> endOfDay D now < snd (getDefaultDateRange D p d)
      \<longrightarrow> handleDateSelect D now (Some d) st =
            (None, st\<lparr>selectedDate := Some d,
                       dlgStartDate := Some (fst (getDefaultDateRange D p d)),
                       dlgEndDate := Some (snd (getDefaultDateRange D p d))\<rparr>))"
  by (cases p) (simp_all add: handleDateSelect_def today_def Let_def)

theorem named_period_end_clamped_witness:
  "dlgPeriod \<lparr>dlgPeriod = Named Weekly, selectedDate = None, dlgStartDate = None,
      dlgEndDate = None\<rparr> = Named Weekly \<and>
   Weekly \<noteq> Daily \<and>
   \<not> endOfDay utc 1704110400000 < 1704067200000 \<and>
   endOfDay utc 1704110400000 < snd (getDefaultDateRange utc Weekly 1704067200000) \<and>
   handleDateSelect utc 1704110400000 (Some 1704067200000)
       \<lparr>dlgPeriod = Named Weekly, selectedDate = None, dlgStartDate = None, dlgEndDate = None\<rparr>
     = (None, \<lparr>dlgPeriod = Named Weekly, selectedDate = Some 1704067200000,
               dlgStartDate = Some 1703980800000, dlgEndDate = Some 1704153599999\<rparr>)"
proof -
  let ?st = "\<lparr>dlgPeriod = Named Weekly, selectedDate = None, dlgStartDate = None,
      dlgEndDate = None\<rparr>"
  have h: "dlgPeriod ?st = Named Weekly \<and> Weekly \<noteq> Daily \<and>
     \<not> endOfDay utc 1704110400000 < 1704067200000 \<and>
     endOfDay utc 1704110400000 < snd (getDefaultDateRange utc Weekly 1704067200000)"
    by (simp add: utc_def msPerDay_def Let_def)
  from named_period_end_clamped [of ?st Weekly utc 1704110400000 1704067200000] h
  have "handleDateSelect utc 1704110400000 (Some 1704067200000) ?st =
      (None, ?st\<lparr>selectedDate := Some 1704067200000,
                 dlgStartDate := Some (fst (getDefaultDateRange utc Weekly 1704067200000)),
                 dlgEndDate := Some (endOfDay utc 1704110400000)\<rparr>)"
    by blast
  with h show ?thesis by (simp add: utc_def msPerDay_def Let_def)
qed

text \<open>
  Claim C5 as stated fails: at noon of Monday 1 January 2024 (UTC) the week of that day
  ends after now, and the stored end is 23:59:59.999 of that day, not now.
\<close>

theorem named_period_end_counterexample:
  "(1704110400000::int) < endOfWeek utc 1704067200000 \<and>
   handleDateSelect utc 1704110400000 (Some 1704067200000)
       \<lparr>dlgPeriod = Named Weekly, selectedDate = None, dlgStartDate = None, dlgEndDate = None\<rparr>
     = (None, \<lparr>dlgPeriod = Named Weekly, selectedDate = Some 1704067200000,
               dlgStartDate = Some 1703980800000, dlgEndDate = Some 1704153599999\<rparr>) \<and>
   (1704153599999::int) \<noteq> 1704110400000"
  by (simp add: handleDateSelect_def today_def utc_def msPerDay_def Let_def)

section \<open>Custom ranges in the report dialog\<close>

text \<open>
  Claim C6, as amended. A start or end bound strictly after the end of the current day
  is rejected: the handler raises the "Invalid Date" error and leaves the stored range
  as it was. A bound that is not after the end of the current day is stored without an
  error; and a start later than the stored end is stored too, the stored end being
  cleared, without an error.
\<close>

theorem custom_range_validation:
  "(endOfDay D now < d
      \<longrightarrow> handleStartDateSelect D now (Some d) st = (Some InvalidDate, st) \<and>
          handleEndDateSelect D now (Some d) st = (Some InvalidDate, st)) \<and>
   (\<not> endOfDay D now < d
      \<longrightarrow> fst (handleStartDateSelect D now (Some d) st) = None \<and>
          dlgStartDate (snd (handleStartDateSelect D now (Some d) st)) = Some d \<and>
          fst (handleEndDateSelect D now (Some d) st) = None \<and>
          dlgEndDate (snd (handleEndDateSelect D now (Some d) st)) = Some d) \<and>
   (\<not> endOfDay D now < d \<and> dlgEndDate st = Some e \<and> e < d
      \<longrightarrow> handleStartDateSelect D now (Some d) st
            = (None, st\<lparr>dlgStartDate := Some d, dlgEndDate := None\<rparr>))"
  by (auto simp: handleStartDateSelect_def handleEndDateSelect_def today_def Let_def
      split: option.splits)

theorem custom_range_validation_witness:
  "endOfDay utc 1704110400000 < 1704240000000 \<and>
   handleStartDateSelect utc 1704110400000 (Some 1704240000000)
       \<lparr>dlgPeriod = Custom, selectedDate = None, dlgStartDate = Some 1703462400000,
        dlgEndDate = Some 1703721600000\<rparr>
     = (Some InvalidDate,
        \<lparr>dlgPeriod = Custom, selectedDate = None, dlgStartDate = Some 1703462400000,
         dlgEndDate = Some 1703721600000\<rparr>) \<and>
   handleEndDateSelect utc 1704110400000 (Some 1704240000000)
       \<lparr>dlgPeriod = Custom, selectedDate = None, dlgStartDate = Some 1703462400000,
        dlgEndDate = Some 1703721600000\<rparr>
     = (Some InvalidDate,
        \<lparr>dlgPeriod = Custom, selectedDate = None, dlgStartDate = Some 1703462400000,
         dlgEndDate = Some 1703721600000\<rparr>)"
proof -
  have h: "endOfDay utc 1704110400000 < 1704240000000"
    by (simp add: utc_def msPerDay_def)
  from custom_range_validation [of utc 1704110400000 1704240000000
      "\<lparr>dlgPeriod = Custom, selectedDate = None, dlgStartDate = Some 1703462400000,
        dlgEndDate = Some 1703721600000\<rparr>"] h
  show ?thesis by blast
qed

text \<open>
  Claim C6 as stated fails, at noon of 1 January 2024 (UTC): a start of 28 December
  after a stored end of 25 December raises no error and changes the stored range; an
  end of 25 December after a stored start of 28 December is stored without an error;
  and an end at 23:00 of the current day, after now, is stored without an error.
\<close>

theorem custom_range_counterexample:
  "handleStartDateSelect utc 1704110400000 (Some 1703721600000)
       \<lparr>dlgPeriod = Custom, selectedDate = None, dlgStartDate = None,
        dlgEndDate = Some 1703462400000\<rparr>
     = (None, \<lparr>dlgPeriod = Custom, selectedDate = None, dlgStartDate = Some 1703721600000,
               dlgEndDate = None\<rparr>) \<and>
   handleEndDateSelect utc 1704110400000 (Some 1703462400000)
       \<lparr>dlgPeriod = Custom, selectedDate = None, dlgStartDate = Some 1703721600000,
        dlgEndDate = None\<rparr>
     = (None, \<lparr>dlgPeriod = Custom, selectedDate = None, dlgStartDate = Some 1703721600000,
               dlgEndDate = Some 1703462400000\<rparr>) \<and>
   (1704110400000::int) < 1704150000000 \<and>
   handleEndDateSelect utc 1704110400000 (Some 1704150000000)
       \<lparr>dlgPeriod = Custom, selectedDate = None, dlgStartDate = None, dlgEndDate = None\<rparr>
     = (None, \<lparr>dlgPeriod = Custom, selectedDate = None, dlgStartDate = None,
               dlgEndDate = Some 1704150000000\<rparr>)"
  by (simp add: handleStartDateSelect_def handleEndDateSelect_def today_def utc_def msPerDay_def)

end
